theory Spec2Isabelle
  imports Main
begin

chapter \<open>The model\<close>

section \<open>Python strings\<close>

text \<open>
  Names are modelled as ASCII strings: \<open>str.lower\<close> maps the letters A..Z to a..z and
  leaves every other character alone.
\<close>

definition char_lower :: "char \<Rightarrow> char" where
  "char_lower c =
     (case map_of (zip ''ABCDEFGHIJKLMNOPQRSTUVWXYZ'' ''abcdefghijklmnopqrstuvwxyz'') c of
        None \<Rightarrow> c
      | Some l \<Rightarrow> l)"

definition py_lower :: "string \<Rightarrow> string" where
  "py_lower s = map char_lower s"

text \<open>\<open>s.startswith(p)\<close> and the substring test \<open>sub in s\<close>.\<close>

fun startswith :: "string \<Rightarrow> string \<Rightarrow> bool" where
  "startswith s [] = True"
| "startswith [] (p # ps) = False"
| "startswith (c # s) (p # ps) = (c = p \<and> startswith s ps)"

fun py_in :: "string \<Rightarrow> string \<Rightarrow> bool" where
  "py_in sub [] = (sub = [])"
| "py_in sub (c # s) = (startswith (c # s) sub \<or> py_in sub s)"

text \<open>\<open>s.rstrip("/")\<close>: every trailing slash is removed.\<close>

definition rstrip_slash :: "string \<Rightarrow> string" where
  "rstrip_slash s = rev (dropWhile (\<lambda>c. c = CHR ''/'') (rev s))"

section \<open>Exceptions\<close>

text \<open>
  Every \<open>raise\<close> of the source is a value of \<open>exn\<close>; a function that can raise returns
  \<open>exn + 'a\<close> with \<open>Inl\<close> the exception. \<open>OtherError\<close> stands for whatever an external
  collaborator (the language model, the request validator, the HTTP library) raises.
\<close>

datatype exn =
    IndexError
  | ValueError string
  | KeyError string
  | AttributeError string
  | ValidationError string
  | FileNotFoundError
  | JSONDecodeError string
  | A2AClientHttpError string
  | A2AClientJSONError string
  | OtherError string

text \<open>\<open>str(e)\<close>, the text that ends up in an error envelope.\<close>

fun str_exn :: "exn \<Rightarrow> string" where
  "str_exn IndexError = ''list index out of range''"
| "str_exn (ValueError m) = m"
| "str_exn (KeyError k) = [CHR 0x27] @ k @ [CHR 0x27]"
| "str_exn (AttributeError m) = m"
| "str_exn (ValidationError m) = m"
| "str_exn FileNotFoundError = ''No such file or directory''"
| "str_exn (JSONDecodeError m) = m"
| "str_exn (A2AClientHttpError m) = m"
| "str_exn (A2AClientJSONError m) = m"
| "str_exn (OtherError m) = m"

section \<open>Data model\<close>

text \<open>
  Modelled from the spec: the declarations of \<open>models/task.py\<close> and \<open>models/request.py\<close>
  (Message, TextPart, Task, TaskState, TaskSendParams, SendTaskRequest, SendTaskResponse)
  are not among the source files. The spec gives a Message as a role with an ordered
  sequence of text parts, a Task as an id, a status and an append-only history, and the
  status as one of pending, working, input_required, completed, error. The fields are the
  ones the source reads and writes.
\<close>

datatype role = User | Agent

datatype text_part = TextPart (part_text: string)

record message =
  role :: role
  parts :: "text_part list"

datatype task_state = Pending | Working | InputRequired | Completed | Failed

record task =
  task_id :: string
  status :: task_state
  history :: "message list"

record task_send_params =
  params_id :: string
  sessionId :: string
  message :: message

record send_task_request =
  request_id :: string
  params :: task_send_params

text \<open>
  A SendTaskResponse holds the request id and a reference to the Task object; \<open>result\<close>
  is the slot of that object in the task manager's store.
\<close>

record send_task_response =
  response_id :: string
  result :: nat

text \<open>
  Modelled from the spec: the status state machine of section 4.3, which the source has
  no table for. Its edges are pending to working, working to input_required, working to
  completed, working or pending to error, input_required to working, and the direct
  pending to completed step of a non-streaming flow.
\<close>

fun edge :: "task_state \<Rightarrow> task_state \<Rightarrow> bool" where
  "edge Pending Working = True"
| "edge Working InputRequired = True"
| "edge Working Completed = True"
| "edge Working Failed = True"
| "edge Pending Failed = True"
| "edge InputRequired Working = True"
| "edge Pending Completed = True"
| "edge _ _ = False"

text \<open>\<open>models/agent.py\<close>: the fields of an AgentCard that the core reads. \<open>card_id\<close> is
  the optional attribute that \<open>getattr(c, "id", "")\<close> looks for; the declared model has
  none, so it is \<open>None\<close> for every card built from it.\<close>

record agent_card =
  name :: string
  desciption :: string
  url :: string
  version :: string
  card_id :: "string option"

section \<open>Task manager (a2a\_level\_3/agents/tell\_time\_agent/task\_manager.py)\<close>

text \<open>
  \<open>self._tasks\<close> is a dict from session id to Task object. Entries are never removed or
  replaced, so the dict is modelled in insertion order and a Task object is identified by
  its slot: two references are the same object exactly when they are the same slot.
\<close>

record task_manager =
  tasks :: "(string \<times> task) list"

definition init_task_manager :: task_manager where
  "init_task_manager = \<lparr>tasks = []\<rparr>"

fun slot_of :: "string \<Rightarrow> (string \<times> 'v) list \<Rightarrow> nat option" where
  "slot_of k [] = None"
| "slot_of k ((k', v) # kvs) =
     (if k = k' then Some 0 else map_option Suc (slot_of k kvs))"

definition task_at :: "task_manager \<Rightarrow> nat \<Rightarrow> task" where
  "task_at tm r = snd (tasks tm ! r)"

definition upsert_task :: "task_manager \<Rightarrow> task_send_params \<Rightarrow> task_manager \<times> nat" where
  "upsert_task tm p =
     (let tid = sessionId p in
      case slot_of tid (tasks tm) of
        None \<Rightarrow>
          (tm\<lparr>tasks := tasks tm @ [(tid, \<lparr>task_id = tid, status = Pending, history = []\<rparr>)]\<rparr>,
           length (tasks tm))
      | Some r \<Rightarrow> (tm, r))"

definition get_user_query :: "send_task_request \<Rightarrow> exn + string" where
  "get_user_query request =
     (case parts (message (params request)) of
        [] \<Rightarrow> Inl IndexError
      | p # _ \<Rightarrow> Inr (part_text p))"

text \<open>The block under \<open>async with self.lock\<close>: the status is set and the reply appended
  through the reference \<open>r\<close>.\<close>

definition append_reply :: "task_manager \<Rightarrow> nat \<Rightarrow> message \<Rightarrow> task_manager" where
  "append_reply tm r agent_message =
     tm\<lparr>tasks := (tasks tm)
        [r := (fst (tasks tm ! r),
               (task_at tm r)\<lparr>status := Completed,
                               history := history (task_at tm r) @ [agent_message]\<rparr>)]\<rparr>"

text \<open>\<open>agent\<close> is \<open>self._agent.invoke\<close>, the language-model call: an external collaborator
  that returns a text or raises.\<close>

definition on_send_task ::
  "(string \<Rightarrow> string \<Rightarrow> exn + string) \<Rightarrow> task_manager \<Rightarrow> send_task_request
     \<Rightarrow> task_manager \<times> (exn + send_task_response)" where
  "on_send_task agent tm request =
     (case upsert_task tm (params request) of (tm1, r) \<Rightarrow>
        (case get_user_query request of
           Inl e \<Rightarrow> (tm1, Inl e)
         | Inr user_query \<Rightarrow>
             (case agent user_query (sessionId (params request)) of
                Inl e \<Rightarrow> (tm1, Inl e)
              | Inr response \<Rightarrow>
                  (append_reply tm1 r \<lparr>role = Agent, parts = [TextPart response]\<rparr>,
                   Inr \<lparr>response_id = request_id request, result = r\<rparr>))))"

text \<open>
  \<open>OrchestratorTaskManager.on_send_task\<close> (a2a\_level\_4/agents/host\_agent/orchestrator.py)
  has the same body, but its \<open>upsert_task\<close> is inherited from \<open>InMemoryTaskManager\<close>,
  which is not among the source files: it is the parameter \<open>upsert\<close>.
\<close>

definition orchestrator_on_send_task ::
  "(task_manager \<Rightarrow> task_send_params \<Rightarrow> task_manager \<times> nat)
     \<Rightarrow> (string \<Rightarrow> string \<Rightarrow> exn + string) \<Rightarrow> task_manager \<Rightarrow> send_task_request
     \<Rightarrow> task_manager \<times> (exn + send_task_response)" where
  "orchestrator_on_send_task upsert agent tm request =
     (case upsert tm (params request) of (tm1, r) \<Rightarrow>
        (case get_user_query request of
           Inl e \<Rightarrow> (tm1, Inl e)
         | Inr user_text \<Rightarrow>
             (case agent user_text (sessionId (params request)) of
                Inl e \<Rightarrow> (tm1, Inl e)
              | Inr response_text \<Rightarrow>
                  (append_reply tm1 r \<lparr>role = Agent, parts = [TextPart response_text]\<rparr>,
                   Inr \<lparr>response_id = request_id request, result = r\<rparr>))))"

text \<open>What holds of every store the task manager can reach: session ids are distinct,
  each Task carries its session id, and a stored status is pending or completed.\<close>

definition store_ok :: "task_manager \<Rightarrow> bool" where
  "store_ok tm =
     (distinct (map fst (tasks tm)) \<and>
      list_all (\<lambda>(sid, t). task_id t = sid \<and> (status t = Pending \<or> status t = Completed))
        (tasks tm))"

text \<open>A caller's view of the task manager: any sequence of the two public operations.\<close>

datatype call =
    Upsert task_send_params
  | SendTask "string \<Rightarrow> string \<Rightarrow> exn + string" send_task_request

fun step :: "task_manager \<Rightarrow> call \<Rightarrow> task_manager" where
  "step tm (Upsert p) = fst (upsert_task tm p)"
| "step tm (SendTask agent request) = fst (on_send_task agent tm request)"

definition run :: "task_manager \<Rightarrow> call list \<Rightarrow> task_manager" where
  "run tm calls = foldl step tm calls"

section \<open>Server (a2a\_level\_3/server/server.py)\<close>

datatype json =
    JNull
  | JString string
  | JInt int
  | JArray "json list"
  | JObject "(string \<times> json) list"

text \<open>Reading a key of a decoded JSON object, as \<open>response["id"]\<close> does.\<close>

fun json_get :: "json \<Rightarrow> string \<Rightarrow> json option" where
  "json_get (JObject kvs) k = map_of kvs k"
| "json_get _ k = None"

text \<open>\<open>models/json_rpc.py\<close>: JSONRPCError, InternalError and JSONRPCResponse.\<close>

record jsonrpc_error =
  code :: int
  error_message :: string
  error_data :: json

text \<open>\<open>InternalError(message=..., data=...)\<close>; \<open>None\<close> is an argument left at its default.\<close>

definition InternalError :: "string option \<Rightarrow> string option \<Rightarrow> jsonrpc_error" where
  "InternalError msg dat =
     \<lparr>code = - 32603,
      error_message = (case msg of None \<Rightarrow> ''Internal error'' | Some m \<Rightarrow> m),
      error_data = (case dat of None \<Rightarrow> JNull | Some d \<Rightarrow> JString d)\<rparr>"

record jsonrpc_response =
  jsonrpc :: string
  rpc_id :: "string option"
  rpc_result :: "json option"
  rpc_error :: "jsonrpc_error option"

text \<open>
  The server imports its own \<open>models.json_rpc\<close>, which is not among the source files; the
  copy of a2a\_level\_4 declares \<open>id: str\<close>, a field that rejects \<open>None\<close>. Whether the
  server's response model accepts \<open>id=None\<close> is the parameter \<open>id_nullable\<close>.
\<close>

definition JSONRPCResponse ::
  "bool \<Rightarrow> string option \<Rightarrow> json option \<Rightarrow> jsonrpc_error option \<Rightarrow> exn + jsonrpc_response" where
  "JSONRPCResponse id_nullable rid res err =
     (if rid = None \<and> \<not> id_nullable
      then Inl (ValidationError ''id: Input should be a valid string'')
      else Inr \<lparr>jsonrpc = ''2.0'', rpc_id = rid, rpc_result = res, rpc_error = err\<rparr>)"

definition dump_error :: "jsonrpc_error \<Rightarrow> json" where
  "dump_error e =
     JObject [(''code'', JInt (code e)), (''message'', JString (error_message e)),
              (''data'', error_data e)]"

definition model_dump :: "jsonrpc_response \<Rightarrow> json" where
  "model_dump r =
     JObject [(''jsonrpc'', JString (jsonrpc r)),
              (''id'', case rpc_id r of None \<Rightarrow> JNull | Some i \<Rightarrow> JString i),
              (''result'', case rpc_result r of None \<Rightarrow> JNull | Some v \<Rightarrow> v),
              (''error'', case rpc_error r of None \<Rightarrow> JNull | Some e \<Rightarrow> dump_error e)]"

text \<open>\<open>model_dump(exclude_none=True)\<close>: the fields that are \<open>None\<close> are left out.\<close>

definition model_dump_exclude_none :: "jsonrpc_response \<Rightarrow> json" where
  "model_dump_exclude_none r =
     JObject (filter (\<lambda>kv. snd kv \<noteq> JNull)
       [(''jsonrpc'', JString (jsonrpc r)),
        (''id'', case rpc_id r of None \<Rightarrow> JNull | Some i \<Rightarrow> JString i),
        (''result'', case rpc_result r of None \<Rightarrow> JNull | Some v \<Rightarrow> v),
        (''error'', case rpc_error r of None \<Rightarrow> JNull | Some e \<Rightarrow> dump_error e)])"

record json_response =
  status_code :: nat
  content :: json

text \<open>
  \<open>A2ARequest.validate_python\<close> belongs to \<open>models/request.py\<close>, which is not among the
  source files: it is the parameter \<open>validate_python\<close>, which classifies a body as a
  SendTaskRequest or as a request of another type, or raises.
\<close>

datatype a2a_request =
    SendTaskRequest send_task_request
  | UnsupportedRequest string

text \<open>
  \<open>_create_response\<close>; a SendTaskResponse is a JSONRPCResponse whose result is the Task,
  dumped by \<open>dump_task\<close> (the Task model is not among the source files).
\<close>

definition create_response ::
  "(task \<Rightarrow> json) \<Rightarrow> task_manager \<Rightarrow> send_task_response \<Rightarrow> json_response" where
  "create_response dump_task tm response =
     \<lparr>status_code = 200,
      content = model_dump_exclude_none
        \<lparr>jsonrpc = ''2.0'', rpc_id = Some (response_id response),
         rpc_result = Some (dump_task (task_at tm (result response))), rpc_error = None\<rparr>\<rparr>"

text \<open>The \<open>except Exception\<close> branch of \<open>handle_request\<close>.\<close>

definition error_response :: "bool \<Rightarrow> exn \<Rightarrow> exn + json_response" where
  "error_response id_nullable e =
     (case JSONRPCResponse id_nullable None None (Some (InternalError (Some (str_exn e)) None)) of
        Inl raised \<Rightarrow> Inl raised
      | Inr r \<Rightarrow> Inr \<lparr>status_code = 400, content = model_dump r\<rparr>)"

definition handle_request ::
  "('b \<Rightarrow> exn + a2a_request) \<Rightarrow> (string \<Rightarrow> string \<Rightarrow> exn + string) \<Rightarrow> bool
     \<Rightarrow> (task \<Rightarrow> json) \<Rightarrow> task_manager \<Rightarrow> 'b \<Rightarrow> task_manager \<times> (exn + json_response)" where
  "handle_request validate_python agent id_nullable dump_task tm body =
     (case validate_python body of
        Inl e \<Rightarrow> (tm, error_response id_nullable e)
      | Inr (SendTaskRequest request) \<Rightarrow>
          (case on_send_task agent tm request of
             (tm', Inl e) \<Rightarrow> (tm', error_response id_nullable e)
           | (tm', Inr response) \<Rightarrow> (tm', Inr (create_response dump_task tm' response)))
      | Inr (UnsupportedRequest ty) \<Rightarrow>
          (tm, error_response id_nullable (ValueError (''Unsupported request type: '' @ ty))))"

definition example_dump_task :: "task \<Rightarrow> json" where
  "example_dump_task t =
     JObject [(''id'', JString (task_id t)),
              (''history'', JArray (map (\<lambda>m. JArray (map (\<lambda>p. JString (part_text p)) (parts m)))
                                     (history t)))]"

section \<open>Discovery (a2a\_level\_3/utilities/discovery.py)\<close>

text \<open>
  What \<open>open\<close> and \<open>json.load\<close> find at \<open>registry_file\<close>: no file, a file that is not
  JSON, or a JSON value.
\<close>

datatype registry_file =
    NoFile
  | NotJson string
  | JsonFile json

definition load_registry :: "registry_file \<Rightarrow> exn + json list" where
  "load_registry f =
     (let attempt =
        (case f of
           NoFile \<Rightarrow> Inl FileNotFoundError
         | NotJson m \<Rightarrow> Inl (JSONDecodeError m)
         | JsonFile (JArray data) \<Rightarrow> Inr data
         | JsonFile _ \<Rightarrow> Inl (ValueError ''Registry file must contain a list of URLs.''))
      in case attempt of
           Inl FileNotFoundError \<Rightarrow> Inr []
         | Inl (JSONDecodeError m) \<Rightarrow> Inr []
         | Inl (ValueError m) \<Rightarrow> Inr []
         | Inl e \<Rightarrow> Inl e
         | Inr data \<Rightarrow> Inr data)"

text \<open>
  The network and the descriptor parser, as \<open>list_agent_card\<close> uses them inside its
  \<open>try\<close>: \<open>client.get\<close>, \<open>response.raise_for_status\<close>, \<open>response.json\<close> and
  \<open>AgentCard(**data)\<close>. Each may raise.
\<close>

record ('r, 'd) http =
  client_get :: "string \<Rightarrow> exn + 'r"
  raise_for_status :: "'r \<Rightarrow> exn option"
  response_json :: "'r \<Rightarrow> exn + 'd"
  AgentCard :: "'d \<Rightarrow> exn + agent_card"

definition fetch_agent_card :: "('r, 'd) http \<Rightarrow> string \<Rightarrow> exn + agent_card" where
  "fetch_agent_card env url' =
     (case client_get env url' of
        Inl e \<Rightarrow> Inl e
      | Inr response \<Rightarrow>
          (case raise_for_status env response of
             Some e \<Rightarrow> Inl e
           | None \<Rightarrow>
               (case response_json env response of
                  Inl e \<Rightarrow> Inl e
                | Inr data \<Rightarrow> AgentCard env data)))"

definition well_known :: "string \<Rightarrow> string" where
  "well_known base_url = rstrip_slash base_url @ ''/.well-known/agent.json''"

text \<open>
  The loop of \<open>list_agent_card\<close>, with \<open>agent_card\<close> the list built so far. The URL is
  computed before the \<open>try\<close>: an entry that is not a string raises out of the function.
\<close>

fun list_agent_card_loop ::
  "('r, 'd) http \<Rightarrow> json list \<Rightarrow> agent_card list \<Rightarrow> exn + agent_card list" where
  "list_agent_card_loop env [] agent_card = Inr agent_card"
| "list_agent_card_loop env (JString base_url # rest) agent_card =
     (case fetch_agent_card env (well_known base_url) of
        Inl e \<Rightarrow> list_agent_card_loop env rest agent_card
      | Inr agent \<Rightarrow> list_agent_card_loop env rest (agent_card @ [agent]))"
| "list_agent_card_loop env (_ # rest) agent_card =
     Inl (AttributeError ''object has no attribute rstrip'')"

definition list_agent_card :: "('r, 'd) http \<Rightarrow> json list \<Rightarrow> exn + agent_card list" where
  "list_agent_card env base_urls = list_agent_card_loop env base_urls []"

text \<open>\<open>DiscoveryClient(registry_file).list_agent_card()\<close>.\<close>

definition discover :: "('r, 'd) http \<Rightarrow> registry_file \<Rightarrow> exn + agent_card list" where
  "discover env f =
     (case load_registry f of
        Inl e \<Rightarrow> Inl e
      | Inr base_urls \<Rightarrow> list_agent_card env base_urls)"

text \<open>
  The ways a source can fail, read off the network and the parser alone: the request
  raises (the peer is unreachable or times out), the status check rejects the response (a
  status that is not a success), the body is not JSON, or the JSON is not a descriptor.
\<close>

definition unreachable :: "('r, 'd) http \<Rightarrow> string \<Rightarrow> bool" where
  "unreachable env base_url = isl (client_get env (well_known base_url))"

definition status_rejected :: "('r, 'd) http \<Rightarrow> string \<Rightarrow> bool" where
  "status_rejected env base_url =
     (case client_get env (well_known base_url) of
        Inl e \<Rightarrow> False
      | Inr response \<Rightarrow> raise_for_status env response \<noteq> None)"

definition malformed_body :: "('r, 'd) http \<Rightarrow> string \<Rightarrow> bool" where
  "malformed_body env base_url =
     (case client_get env (well_known base_url) of
        Inl e \<Rightarrow> False
      | Inr response \<Rightarrow> isl (response_json env response))"

definition malformed_descriptor :: "('r, 'd) http \<Rightarrow> string \<Rightarrow> bool" where
  "malformed_descriptor env base_url =
     (case client_get env (well_known base_url) of
        Inl e \<Rightarrow> False
      | Inr response \<Rightarrow>
          (case response_json env response of
             Inl e \<Rightarrow> False
           | Inr d \<Rightarrow> isl (AgentCard env d)))"

definition source_fails :: "('r, 'd) http \<Rightarrow> string \<Rightarrow> bool" where
  "source_fails env base_url =
     (unreachable env base_url \<or> status_rejected env base_url \<or>
      malformed_body env base_url \<or> malformed_descriptor env base_url)"

text \<open>The descriptor a source serves: the parsed body of the response to its well-known
  URL.\<close>

definition served_card :: "('r, 'd) http \<Rightarrow> string \<Rightarrow> agent_card" where
  "served_card env base_url =
     projr (AgentCard env (projr (response_json env
       (projr (client_get env (well_known base_url))))))"

definition example_card :: "string \<Rightarrow> string \<Rightarrow> agent_card" where
  "example_card n u = \<lparr>name = n, desciption = '''', url = u, version = ''1.0'', card_id = None\<rparr>"

text \<open>
  A network of six peers; a response is a status with a body. \<open>http://a\<close> and
  \<open>http://f\<close> serve descriptors; \<open>http://b\<close> times out; \<open>http://c\<close> answers 500 with a
  body that would parse; \<open>http://d\<close> answers with a page that is not JSON; \<open>http://e\<close>
  answers with JSON that lacks the descriptor's fields.
\<close>

definition example_http :: "(nat \<times> string, string) http" where
  "example_http =
     \<lparr>client_get = (\<lambda>u.
        if u = ''http://a/.well-known/agent.json'' then Inr (200, ''TimeAgent'')
        else if u = ''http://c/.well-known/agent.json'' then Inr (500, ''Broken'')
        else if u = ''http://d/.well-known/agent.json'' then Inr (200, ''<html>'')
        else if u = ''http://e/.well-known/agent.json'' then Inr (200, ''{}'')
        else if u = ''http://f/.well-known/agent.json'' then Inr (200, ''Translator'')
        else Inl (OtherError ''timed out'')),
      raise_for_status = (\<lambda>r. if 200 \<le> fst r \<and> fst r < 300 then None
                               else Some (OtherError ''HTTPStatusError'')),
      response_json = (\<lambda>r. if snd r = ''<html>'' then Inl (JSONDecodeError ''Expecting value'')
                            else Inr (snd r)),
      AgentCard = (\<lambda>d. if d = ''{}'' then Inl (ValidationError ''name: Field required'')
                        else Inr (example_card d ''http://agent''))\<rparr>"

section \<open>Client and connector (a2a\_level\_3/client/client.py,
  a2a\_level\_4/utilities/a2a/agent\_connector.py)\<close>

text \<open>
  What the \<open>try\<close> of \<open>_send_request\<close> meets: \<open>client.post\<close> or \<open>raise_for_status\<close>
  raises an \<open>httpx.HTTPError\<close> (connection failure, timeout, error status),
  \<open>response.json()\<close> raises a \<open>JSONDecodeError\<close>, some other exception is raised, or the
  body parses to a dict. Of the dict only \<open>response["result"]\<close> is read, and only by
  \<open>Task(**...)\<close>: the key is absent, its value is not a Task, or it is a Task.
\<close>

datatype result_field =
    NoResult
  | BadResult string
  | TaskResult task

datatype http_reply =
    RaisesHTTPError string
  | RaisesJSONDecodeError string
  | RaisesOther exn
  | JsonBody result_field

text \<open>
  The world outside the process: the UUIDs that \<open>uuid4()\<close> will produce, and the remote
  side, whose answer may depend on everything posted before. \<open>posted\<close> logs every POST
  attempted, in order.
\<close>

record world =
  uuid_supply :: "nat \<Rightarrow> string"
  uuid_count :: nat
  remote :: "(string \<times> send_task_request) list \<Rightarrow> string \<Rightarrow> send_task_request \<Rightarrow> http_reply"
  posted :: "(string \<times> send_task_request) list"

text \<open>\<open>uuid4()\<close> yields the next UUID, given by its 32 hex digits (\<open>.hex\<close>); \<open>str(...)\<close>
  writes it in groups of 8-4-4-4-12.\<close>

definition uuid4 :: "world \<Rightarrow> string \<times> world" where
  "uuid4 w = (uuid_supply w (uuid_count w), w\<lparr>uuid_count := Suc (uuid_count w)\<rparr>)"

definition uuid_str :: "string \<Rightarrow> string" where
  "uuid_str h =
     take 8 h @ ''-'' @ take 4 (drop 8 h) @ ''-'' @ take 4 (drop 12 h) @ ''-'' @
     take 4 (drop 16 h) @ ''-'' @ drop 20 h"

record a2a_client =
  base_url :: string

definition A2AClient :: "string \<Rightarrow> exn + a2a_client" where
  "A2AClient url' =
     (if url' \<noteq> [] then Inr \<lparr>base_url = url'\<rparr>
      else Inl (ValueError ''Either agent_card or base_url must be provided.''))"

definition send_request ::
  "a2a_client \<Rightarrow> send_task_request \<Rightarrow> world \<Rightarrow> (exn + result_field) \<times> world" where
  "send_request self request w =
     (let reply = remote w (posted w) (base_url self) request;
          w' = w\<lparr>posted := posted w @ [(base_url self, request)]\<rparr>
      in case reply of
           RaisesHTTPError m \<Rightarrow> (Inl (A2AClientHttpError (''HTTP error occurred: '' @ m)), w')
         | RaisesJSONDecodeError m \<Rightarrow>
             (Inl (A2AClientJSONError (''Error parsing JSON response: '' @ m)), w')
         | RaisesOther e \<Rightarrow> (Inl e, w')
         | JsonBody response \<Rightarrow> (Inr response, w'))"

definition client_send_task ::
  "a2a_client \<Rightarrow> task_send_params \<Rightarrow> world \<Rightarrow> (exn + task) \<times> world" where
  "client_send_task self payload w =
     (case uuid4 w of (u, w1) \<Rightarrow>
        (case send_request self \<lparr>request_id = u, params = payload\<rparr> w1 of
           (Inl e, w2) \<Rightarrow> (Inl e, w2)
         | (Inr NoResult, w2) \<Rightarrow> (Inl (KeyError ''result''), w2)
         | (Inr (BadResult m), w2) \<Rightarrow> (Inl (ValidationError m), w2)
         | (Inr (TaskResult t), w2) \<Rightarrow> (Inr t, w2)))"

record agent_connector =
  connector_name :: string
  client :: a2a_client

definition AgentConnector :: "string \<Rightarrow> string \<Rightarrow> exn + agent_connector" where
  "AgentConnector n url' =
     (case A2AClient url' of
        Inl e \<Rightarrow> Inl e
      | Inr c \<Rightarrow> Inr \<lparr>connector_name = n, client = c\<rparr>)"

definition send_task ::
  "agent_connector \<Rightarrow> string \<Rightarrow> string \<Rightarrow> world \<Rightarrow> (exn + task) \<times> world" where
  "send_task self msg session_id w =
     (case uuid4 w of (task_uuid, w1) \<Rightarrow>
        client_send_task (client self)
          \<lparr>params_id = task_uuid, sessionId = session_id,
           message = \<lparr>role = User, parts = [TextPart msg]\<rparr>\<rparr> w1)"

text \<open>The request that \<open>send_task\<close> puts on the wire from world \<open>w\<close>.\<close>

definition wire_request :: "string \<Rightarrow> string \<Rightarrow> world \<Rightarrow> send_task_request" where
  "wire_request msg session_id w =
     \<lparr>request_id = uuid_supply w (Suc (uuid_count w)),
      params = \<lparr>params_id = uuid_supply w (uuid_count w), sessionId = session_id,
                message = \<lparr>role = User, parts = [TextPart msg]\<rparr>\<rparr>\<rparr>"

fun example_uuid :: "nat \<Rightarrow> string" where
  "example_uuid 0 = ''0a000000000040008000000000000000''"
| "example_uuid (Suc 0) = ''0b000000000040008000000000000000''"
| "example_uuid (Suc (Suc 0)) = ''0c000000000040008000000000000000''"
| "example_uuid (Suc (Suc (Suc 0))) = ''0d000000000040008000000000000000''"
| "example_uuid (Suc (Suc (Suc (Suc 0)))) = ''0e000000000040008000000000000000''"
| "example_uuid (Suc (Suc (Suc (Suc (Suc n))))) = ''0f000000000040008000000000000000''"

definition example_world ::
  "((string \<times> send_task_request) list \<Rightarrow> string \<Rightarrow> send_task_request \<Rightarrow> http_reply) \<Rightarrow> world" where
  "example_world r = \<lparr>uuid_supply = example_uuid, uuid_count = 0, remote = r, posted = []\<rparr>"

definition time_connector :: agent_connector where
  "time_connector = \<lparr>connector_name = ''TellTimeAgent'', client = \<lparr>base_url = ''http://time''\<rparr>\<rparr>"

section \<open>Orchestrator (a2a\_level\_4/agents/host\_agent/orchestrator.py)\<close>

text \<open>\<open>__init__\<close>: one connector per card, stored under the card's name; a later card
  of the same name replaces the earlier one.\<close>

fun register_connectors ::
  "agent_card list \<Rightarrow> (string \<rightharpoonup> agent_connector) \<Rightarrow> exn + (string \<rightharpoonup> agent_connector)" where
  "register_connectors [] connectors = Inr connectors"
| "register_connectors (ac # cards) connectors =
     (case AgentConnector (name ac) (url ac) of
        Inl e \<Rightarrow> Inl e
      | Inr c \<Rightarrow> register_connectors cards (connectors(name ac \<mapsto> c)))"

definition orchestrator_init :: "agent_card list \<Rightarrow> exn + (string \<rightharpoonup> agent_connector)" where
  "orchestrator_init agent_cards = register_connectors agent_cards Map.empty"

text \<open>The first statements of \<open>_delegate_task\<close>: the name must be a key of the dict.\<close>

definition resolve_connector ::
  "(string \<rightharpoonup> agent_connector) \<Rightarrow> string \<Rightarrow> exn + agent_connector" where
  "resolve_connector connectors agent_name =
     (case connectors agent_name of
        None \<Rightarrow> Inl (ValueError (''Unknown agent: '' @ agent_name))
      | Some connector \<Rightarrow> Inr connector)"

text \<open>The session id is kept in \<open>tool_context.state\<close>, a dict of the tool context.\<close>

definition ensure_session_id ::
  "(string \<rightharpoonup> string) \<Rightarrow> world \<Rightarrow> string \<times> (string \<rightharpoonup> string) \<times> world" where
  "ensure_session_id state w =
     (case state ''session_id'' of
        None \<Rightarrow> (case uuid4 w of (u, w1) \<Rightarrow> (uuid_str u, state(''session_id'' \<mapsto> uuid_str u), w1))
      | Some session_id \<Rightarrow> (session_id, state, w))"

text \<open>The last statements of \<open>_delegate_task\<close>: the text returned for a child Task.\<close>

definition delegate_reply :: "task \<Rightarrow> exn + string" where
  "delegate_reply child_task =
     (if history child_task \<noteq> [] \<and> length (history child_task) > 1
      then (case parts (last (history child_task)) of
              [] \<Rightarrow> Inl IndexError
            | p # _ \<Rightarrow> Inr (part_text p))
      else Inr '''')"

definition delegate_task ::
  "(string \<rightharpoonup> agent_connector) \<Rightarrow> string \<Rightarrow> string \<Rightarrow> (string \<rightharpoonup> string) \<Rightarrow> world
     \<Rightarrow> (exn + string) \<times> (string \<rightharpoonup> string) \<times> world" where
  "delegate_task connectors agent_name msg state w =
     (case resolve_connector connectors agent_name of
        Inl e \<Rightarrow> (Inl e, state, w)
      | Inr connector \<Rightarrow>
          (case ensure_session_id state w of (session_id, state1, w1) \<Rightarrow>
             (case send_task connector msg session_id w1 of
                (Inl e, w2) \<Rightarrow> (Inl e, state1, w2)
              | (Inr child_task, w2) \<Rightarrow> (delegate_reply child_task, state1, w2))))"

text \<open>
  One delegation made while \<open>invoke(query, session_id)\<close> is served. \<open>invoke\<close> looks the
  session up by the end user's session id and creates it with an empty state when there
  is none; the tool context of a tool call carries that session's state, and what the
  tool writes to it stays with the session. \<open>sessions\<close> is the session service's table.
\<close>

definition dispatch ::
  "(string \<rightharpoonup> agent_connector) \<Rightarrow> (string \<rightharpoonup> (string \<rightharpoonup> string)) \<Rightarrow> string \<Rightarrow> string \<Rightarrow> string
     \<Rightarrow> world \<Rightarrow> (exn + string) \<times> (string \<rightharpoonup> (string \<rightharpoonup> string)) \<times> world" where
  "dispatch connectors sessions session_id agent_name msg w =
     (let state = (case sessions session_id of None \<Rightarrow> Map.empty | Some st \<Rightarrow> st)
      in case delegate_task connectors agent_name msg state w of
           (res, state', w') \<Rightarrow> (res, sessions(session_id \<mapsto> state'), w'))"

section \<open>Greeting agent (a2a\_level\_4/agents/greeting\_agent/agent.py)\<close>

text \<open>The two tests of \<open>call_agent\<close>; \<open>getattr(c, "id", "")\<close> is the empty string for a
  card without an id.\<close>

definition matches_exact :: "string \<Rightarrow> agent_card \<Rightarrow> bool" where
  "matches_exact agent_name c =
     (py_lower (name c) = py_lower agent_name \<or>
      py_lower (case card_id c of None \<Rightarrow> '''' | Some i \<Rightarrow> i) = py_lower agent_name)"

definition matches_substring :: "string \<Rightarrow> agent_card \<Rightarrow> bool" where
  "matches_substring agent_name c = py_in (py_lower agent_name) (py_lower (name c))"

text \<open>\<open>next((c for c in cards if ...), None)\<close> is \<open>find\<close>.\<close>

definition find_agent :: "agent_card list \<Rightarrow> string \<Rightarrow> exn + agent_card" where
  "find_agent cards agent_name =
     (case find (matches_exact agent_name) cards of
        Some matched \<Rightarrow> Inr matched
      | None \<Rightarrow>
          (case find (matches_substring agent_name) cards of
             Some matched \<Rightarrow> Inr matched
           | None \<Rightarrow> Inl (ValueError (''Agent '' @ [CHR 0x27] @ agent_name @ [CHR 0x27] @ '' not found.''))))"

text \<open>The connector cache \<open>self.connectors\<close>, keyed by the matched card's name.\<close>

definition cached_connector ::
  "(string \<rightharpoonup> agent_connector) \<Rightarrow> agent_card
     \<Rightarrow> exn + (string \<rightharpoonup> agent_connector) \<times> agent_connector" where
  "cached_connector connectors matched =
     (case connectors (name matched) of
        Some connector \<Rightarrow> Inr (connectors, connector)
      | None \<Rightarrow>
          (case AgentConnector (name matched) (url matched) of
             Inl e \<Rightarrow> Inl e
           | Inr connector \<Rightarrow> Inr (connectors(name matched \<mapsto> connector), connector)))"

definition call_agent_reply :: "task \<Rightarrow> string" where
  "call_agent_reply t =
     (if history t \<noteq> [] \<and> parts (last (history t)) \<noteq> []
      then (case parts (last (history t)) of p # _ \<Rightarrow> part_text p | [] \<Rightarrow> '''')
      else '''')"

text \<open>\<open>cards\<close> is what \<open>self.discovery.list_agent_cards()\<close> returned for this call.\<close>

definition call_agent ::
  "agent_card list \<Rightarrow> (string \<rightharpoonup> agent_connector) \<Rightarrow> string \<Rightarrow> string \<Rightarrow> world
     \<Rightarrow> (exn + string) \<times> (string \<rightharpoonup> agent_connector) \<times> world" where
  "call_agent cards connectors agent_name msg w =
     (case find_agent cards agent_name of
        Inl e \<Rightarrow> (Inl e, connectors, w)
      | Inr matched \<Rightarrow>
          (case cached_connector connectors matched of
             Inl e \<Rightarrow> (Inl e, connectors, w)
           | Inr (connectors1, connector) \<Rightarrow>
               (case send_task connector msg ''greeting_user'' w of
                  (Inl e, w1) \<Rightarrow> (Inl e, connectors1, w1)
                | (Inr t, w1) \<Rightarrow> (Inr (call_agent_reply t), connectors1, w1))))"

definition time_card :: agent_card where
  "time_card = example_card ''TellTimeAgent'' ''http://time''"

definition translator_card :: agent_card where
  "translator_card = example_card ''Translator'' ''http://translate''"

text \<open>A remote agent whose Task holds a single entry, the agent's reply.\<close>

definition single_reply_remote ::
  "(string \<times> send_task_request) list \<Rightarrow> string \<Rightarrow> send_task_request \<Rightarrow> http_reply" where
  "single_reply_remote log u r =
     JsonBody (TaskResult \<lparr>task_id = sessionId (params r), status = Completed,
       history = [\<lparr>role = Agent, parts = [TextPart ''12:00'']\<rparr>]\<rparr>)"

text \<open>Repeated delegations of one conversation: each pair is an agent name and a message.\<close>

fun dispatch_all ::
  "(string \<rightharpoonup> agent_connector) \<Rightarrow> (string \<rightharpoonup> (string \<rightharpoonup> string)) \<Rightarrow> string
     \<Rightarrow> (string \<times> string) list \<Rightarrow> world \<Rightarrow> (string \<rightharpoonup> (string \<rightharpoonup> string)) \<times> world" where
  "dispatch_all connectors sessions session_id [] w = (sessions, w)"
| "dispatch_all connectors sessions session_id ((agent_name, msg) # rest) w =
     (case dispatch connectors sessions session_id agent_name msg w of
        (res, sessions', w') \<Rightarrow> dispatch_all connectors sessions' session_id rest w')"

text \<open>The session ids of the requests posted so far, and the id a session has stored.\<close>

definition outbound_session_ids :: "world \<Rightarrow> string list" where
  "outbound_session_ids w = map (\<lambda>p. sessionId (params (snd p))) (posted w)"

definition stored_session_id :: "(string \<rightharpoonup> (string \<rightharpoonup> string)) \<Rightarrow> string \<Rightarrow> string option" where
  "stored_session_id sessions session_id =
     (case sessions session_id of None \<Rightarrow> None | Some st \<Rightarrow> st ''session_id'')"

text \<open>The id the next delegation of a session will send: the stored one, or else the
  next UUID of the world.\<close>

definition downstream_session_id ::
  "(string \<rightharpoonup> (string \<rightharpoonup> string)) \<Rightarrow> string \<Rightarrow> world \<Rightarrow> string" where
  "downstream_session_id sessions session_id w =
     (case stored_session_id sessions session_id of
        None \<Rightarrow> uuid_str (uuid_supply w (uuid_count w))
      | Some s \<Rightarrow> s)"

section \<open>Tool gateway (a2a\_level\_4/utilities/mcp/mcp\_connector.py)\<close>

record mcp_tool =
  tool_name :: string
  description :: string
  input_schema :: json
  server_cmd :: string
  server_args :: "string list"

text \<open>
  Python lists are objects that can be shared, so they live in a heap: a list object is an
  address into the heap, and \<open>self.tools\<close> holds such an address. The elements are the
  MCPTool objects themselves (a shallow copy shares them); nothing here mutates a tool.
\<close>

record mcp_connector =
  tools :: nat

text \<open>\<open>get_tools\<close> returns \<open>self.tools.copy()\<close>: a new list object with the same
  elements.\<close>

definition get_tools :: "mcp_connector \<Rightarrow> mcp_tool list list \<Rightarrow> nat \<times> mcp_tool list list" where
  "get_tools self heap = (length heap, heap @ [heap ! tools self])"

text \<open>What a caller may do to a list object it holds: any in-place change of its
  elements, such as \<open>append\<close>, \<open>remove\<close>, \<open>reverse\<close>, \<open>sort\<close> or \<open>clear\<close>.\<close>

definition mutate :: "mcp_tool list list \<Rightarrow> nat \<Rightarrow> (mcp_tool list \<Rightarrow> mcp_tool list) \<Rightarrow> mcp_tool list list" where
  "mutate heap r f = heap[r := f (heap ! r)]"

definition mutate_all ::
  "mcp_tool list list \<Rightarrow> nat \<Rightarrow> (mcp_tool list \<Rightarrow> mcp_tool list) list \<Rightarrow> mcp_tool list list" where
  "mutate_all heap r fs = foldl (\<lambda>h f. mutate h r f) heap fs"

definition example_tool :: "string \<Rightarrow> mcp_tool" where
  "example_tool n =
     \<lparr>tool_name = n, description = '''', input_schema = JObject [], server_cmd = ''python'',
      server_args = [''server.py'']\<rparr>"

section \<open>Example values\<close>

definition user_message :: "string \<Rightarrow> message" where
  "user_message s = \<lparr>role = User, parts = [TextPart s]\<rparr>"

definition example_params :: "string \<Rightarrow> string \<Rightarrow> string \<Rightarrow> task_send_params" where
  "example_params tid sid s = \<lparr>params_id = tid, sessionId = sid, message = user_message s\<rparr>"

definition example_request :: "string \<Rightarrow> string \<Rightarrow> string \<Rightarrow> send_task_request" where
  "example_request rid sid s = \<lparr>request_id = rid, params = example_params rid sid s\<rparr>"

text \<open>A request whose message has no parts.\<close>

definition empty_request :: "string \<Rightarrow> string \<Rightarrow> send_task_request" where
  "empty_request rid sid =
     \<lparr>request_id = rid,
      params = \<lparr>params_id = rid, sessionId = sid, message = \<lparr>role = User, parts = []\<rparr>\<rparr>\<rparr>"

definition clock_agent :: "string \<Rightarrow> string \<Rightarrow> exn + string" where
  "clock_agent user_query sid = Inr ''12:00''"

chapter \<open>Properties\<close>

section \<open>Task manager\<close>

lemma slot_of_None_iff: "slot_of k kvs = None \<longleftrightarrow> k \<notin> fst ` set kvs"
proof (induction kvs)
  case Nil show ?case by simp
next
  case (Cons kv kvs)
  obtain k' v where kv: "kv = (k', v)" by (cases kv)
  show ?case using Cons.IH by (cases "k = k'") (simp_all add: kv)
qed

lemma slot_of_Some:
  "slot_of k kvs = Some r \<Longrightarrow> r < length kvs \<and> fst (kvs ! r) = k"
proof (induction kvs arbitrary: r)
  case Nil then show ?case by simp
next
  case (Cons kv kvs)
  obtain k' v where kv: "kv = (k', v)" by (cases kv)
  show ?case
  proof (cases "k = k'")
    case True with Cons.prems kv show ?thesis by simp
  next
    case False
    with Cons.prems kv obtain r' where "slot_of k kvs = Some r'" "r = Suc r'" by auto
    with Cons.IH show ?thesis by simp
  qed
qed

lemma slot_of_append_Some:
  "slot_of k kvs = Some r \<Longrightarrow> slot_of k (kvs @ kvs2) = Some r"
  by (induction kvs arbitrary: r) auto

lemma slot_of_append_None:
  "slot_of k kvs = None \<Longrightarrow> slot_of k (kvs @ [(k, v)]) = Some (length kvs)"
  by (induction kvs) (auto split: if_splits)

lemma slot_of_update:
  "r < length kvs \<Longrightarrow> slot_of k (kvs[r := (fst (kvs ! r), v)]) = slot_of k kvs"
proof (induction kvs arbitrary: r)
  case Nil then show ?case by simp
next
  case (Cons kv kvs)
  then show ?case by (cases r; cases kv) auto
qed

lemma upsert_task_slot:
  "upsert_task tm p = (tm1, r) \<Longrightarrow> slot_of (sessionId p) (tasks tm1) = Some r"
  by (auto simp: upsert_task_def Let_def slot_of_append_None split: option.splits)

lemma upsert_task_keeps_slot:
  "slot_of k (tasks tm) = Some r \<Longrightarrow> slot_of k (tasks (fst (upsert_task tm p))) = Some r"
  by (auto simp: upsert_task_def Let_def slot_of_append_Some split: option.splits)

lemma upsert_task_known:
  "slot_of (sessionId p) (tasks tm) = Some r \<Longrightarrow> upsert_task tm p = (tm, r)"
  by (simp add: upsert_task_def)

lemma append_reply_keeps_slot:
  "r < length (tasks tm) \<Longrightarrow> slot_of k (tasks (append_reply tm r m)) = slot_of k (tasks tm)"
  by (simp add: append_reply_def slot_of_update)

lemma upsert_task_bound:
  "upsert_task tm p = (tm1, r) \<Longrightarrow> r < length (tasks tm1)"
  using upsert_task_slot slot_of_Some by blast

lemma on_send_task_keeps_slot:
  assumes "slot_of k (tasks tm) = Some r"
  shows "slot_of k (tasks (fst (on_send_task agent tm request))) = Some r"
proof -
  obtain tm1 r1 where u: "upsert_task tm (params request) = (tm1, r1)"
    by (cases "upsert_task tm (params request)")
  have s1: "slot_of k (tasks tm1) = Some r"
    using upsert_task_keeps_slot [OF assms, of "params request"] u by simp
  have b: "r1 < length (tasks tm1)" using u by (rule upsert_task_bound)
  show ?thesis
    using s1 b u
    by (auto simp: on_send_task_def append_reply_keeps_slot split: sum.splits)
qed

lemma step_keeps_slot:
  "slot_of k (tasks tm) = Some r \<Longrightarrow> slot_of k (tasks (step tm c)) = Some r"
  by (cases c) (simp_all add: upsert_task_keeps_slot on_send_task_keeps_slot)

lemma run_keeps_slot:
  "slot_of k (tasks tm) = Some r \<Longrightarrow> slot_of k (tasks (run tm calls)) = Some r"
  unfolding run_def by (induction calls arbitrary: tm) (simp_all add: step_keeps_slot)


lemma store_ok_upsert:
  assumes "store_ok tm"
  shows "store_ok (fst (upsert_task tm p))"
proof (cases "slot_of (sessionId p) (tasks tm)")
  case None
  then have "sessionId p \<notin> fst ` set (tasks tm)" by (simp add: slot_of_None_iff)
  with assms None show ?thesis
    by (simp add: store_ok_def upsert_task_def Let_def)
next
  case (Some r)
  with assms show ?thesis by (simp add: upsert_task_def)
qed

lemma map_fst_update:
  "r < length kvs \<Longrightarrow> map fst (kvs[r := (fst (kvs ! r), v)]) = map fst kvs"
  by (simp add: map_update list_update_same_conv)

lemma store_ok_append_reply:
  assumes "store_ok tm" "r < length (tasks tm)"
  shows "store_ok (append_reply tm r m)"
proof -
  let ?t = "(task_at tm r)\<lparr>status := Completed, history := history (task_at tm r) @ [m]\<rparr>"
  have d: "distinct (map fst (tasks (append_reply tm r m)))"
    using assms by (simp add: append_reply_def store_ok_def map_fst_update)
  have old: "task_id (task_at tm r) = fst (tasks tm ! r)"
    using assms by (auto simp: store_ok_def task_at_def list_all_length split: prod.splits)
  have "list_all (\<lambda>(sid, t). task_id t = sid \<and> (status t = Pending \<or> status t = Completed))
          ((tasks tm)[r := (fst (tasks tm ! r), ?t)])"
    unfolding list_all_length
  proof (intro allI impI)
    fix j assume j: "j < length ((tasks tm)[r := (fst (tasks tm ! r), ?t)])"
    show "case (tasks tm)[r := (fst (tasks tm ! r), ?t)] ! j of
            (sid, t) \<Rightarrow> task_id t = sid \<and> (status t = Pending \<or> status t = Completed)"
    proof (cases "j = r")
      case True with assms old show ?thesis by simp
    next
      case False
      with j assms(1) show ?thesis by (simp add: store_ok_def list_all_length)
    qed
  qed
  with d show ?thesis by (simp add: store_ok_def append_reply_def)
qed

lemma store_ok_on_send_task:
  assumes "store_ok tm"
  shows "store_ok (fst (on_send_task agent tm request))"
proof -
  obtain tm1 r where u: "upsert_task tm (params request) = (tm1, r)"
    by (cases "upsert_task tm (params request)")
  have ok1: "store_ok tm1" using store_ok_upsert [OF assms, of "params request"] u by simp
  have b: "r < length (tasks tm1)" using u by (rule upsert_task_bound)
  show ?thesis using ok1 b u
    by (auto simp: on_send_task_def store_ok_append_reply split: sum.splits)
qed

lemma store_ok_step: "store_ok tm \<Longrightarrow> store_ok (step tm c)"
  by (cases c) (simp_all add: store_ok_upsert store_ok_on_send_task)

lemma store_ok_run: "store_ok tm \<Longrightarrow> store_ok (run tm calls)"
  unfolding run_def by (induction calls arbitrary: tm) (simp_all add: store_ok_step)

lemma store_ok_init: "store_ok init_task_manager"
  by (simp add: store_ok_def init_task_manager_def)

lemma distinct_count_one:
  "distinct (map fst kvs) \<Longrightarrow> r < length kvs \<Longrightarrow>
     length (filter (\<lambda>kv. fst kv = fst (kvs ! r)) kvs) = 1"
proof (induction kvs arbitrary: r)
  case Nil then show ?case by simp
next
  case (Cons kv kvs)
  show ?case
  proof (cases r)
    case 0
    have "filter (\<lambda>x. fst x = fst kv) kvs = []"
    proof -
      have "fst kv \<notin> fst ` set kvs" using Cons.prems(1) by simp
      then have "\<forall>x\<in>set kvs. fst x \<noteq> fst kv" by (metis image_eqI)
      then show ?thesis by (simp add: filter_empty_conv)
    qed
    with 0 show ?thesis by simp
  next
    case (Suc r')
    with Cons.prems have r': "r' < length kvs" by simp
    then have "fst (kvs ! r') \<in> set (map fst kvs)" by (metis length_map nth_map nth_mem)
    moreover have "fst kv \<notin> set (map fst kvs)" using Cons.prems(1) by simp
    ultimately have "fst kv \<noteq> fst (kvs ! r')" by metis
    with Cons.IH [OF _ r'] Cons.prems(1) Suc show ?thesis by simp
  qed
qed

text \<open>
  C3. \<open>upsert_task\<close> is idempotent per session. If a call for a session id returned the
  Task object \<open>r\<close>, then every later call for the same session id (directly after, or
  after any further sequence of upserts and sends) returns the same object \<open>r\<close> and leaves
  the store as it is. The first call for an unseen session id adds exactly one pending Task
  with an empty history; a call for a known one adds nothing. In every store reached from
  a well-formed one, exactly one Task exists for that session id.
\<close>

theorem upsert_task_idempotent:
  assumes "upsert_task tm p = (tm1, r)" and "sessionId p' = sessionId p"
  shows "upsert_task tm1 p' = (tm1, r) \<and>
         upsert_task (run tm1 calls) p' = (run tm1 calls, r) \<and>
         (slot_of (sessionId p) (tasks tm) = None \<longrightarrow>
            tasks tm1 = tasks tm @ [(sessionId p, \<lparr>task_id = sessionId p, status = Pending, history = []\<rparr>)]
            \<and> r = length (tasks tm)) \<and>
         (slot_of (sessionId p) (tasks tm) \<noteq> None \<longrightarrow> tm1 = tm) \<and>
         (store_ok tm \<longrightarrow>
            length (filter (\<lambda>kv. fst kv = sessionId p) (tasks (run tm1 calls))) = 1)"
proof -
  have s1: "slot_of (sessionId p') (tasks tm1) = Some r"
    using upsert_task_slot [OF assms(1)] assms(2) by simp
  then have a: "upsert_task tm1 p' = (tm1, r)" by (rule upsert_task_known)
  have s2: "slot_of (sessionId p') (tasks (run tm1 calls)) = Some r"
    using s1 by (rule run_keeps_slot)
  then have b: "upsert_task (run tm1 calls) p' = (run tm1 calls, r)" by (rule upsert_task_known)
  have c: "slot_of (sessionId p) (tasks tm) = None \<longrightarrow>
            tasks tm1 = tasks tm @ [(sessionId p, \<lparr>task_id = sessionId p, status = Pending, history = []\<rparr>)]
            \<and> r = length (tasks tm)"
    using assms(1) by (auto simp: upsert_task_def Let_def)
  have d: "slot_of (sessionId p) (tasks tm) \<noteq> None \<longrightarrow> tm1 = tm"
    using assms(1) by (auto simp: upsert_task_def Let_def)
  have e: "store_ok tm \<longrightarrow>
            length (filter (\<lambda>kv. fst kv = sessionId p) (tasks (run tm1 calls))) = 1"
  proof
    assume "store_ok tm"
    then have "store_ok tm1" using store_ok_upsert [of tm p] assms(1) by simp
    then have "store_ok (run tm1 calls)" by (rule store_ok_run)
    then have dist: "distinct (map fst (tasks (run tm1 calls)))" by (simp add: store_ok_def)
    from slot_of_Some [OF s2] assms(2)
    have "r < length (tasks (run tm1 calls))" "fst (tasks (run tm1 calls) ! r) = sessionId p"
      by simp_all
    with distinct_count_one [OF dist, of r] show
      "length (filter (\<lambda>kv. fst kv = sessionId p) (tasks (run tm1 calls))) = 1" by simp
  qed
  from a b c d e show ?thesis by blast
qed

theorem upsert_task_idempotent_witness:
  "upsert_task init_task_manager (example_params ''t1'' ''s1'' ''What time is it?'') =
     (\<lparr>tasks = [(''s1'', \<lparr>task_id = ''s1'', status = Pending, history = []\<rparr>)]\<rparr>, 0) \<and>
   upsert_task \<lparr>tasks = [(''s1'', \<lparr>task_id = ''s1'', status = Pending, history = []\<rparr>)]\<rparr>
       (example_params ''t2'' ''s1'' ''And tomorrow?'') =
     (\<lparr>tasks = [(''s1'', \<lparr>task_id = ''s1'', status = Pending, history = []\<rparr>)]\<rparr>, 0) \<and>
   snd (upsert_task
         (run \<lparr>tasks = [(''s1'', \<lparr>task_id = ''s1'', status = Pending, history = []\<rparr>)]\<rparr>
            [Upsert (example_params ''t3'' ''s2'' ''Hello''),
             SendTask clock_agent (example_request ''r4'' ''s1'' ''What time is it?'')])
         (example_params ''t2'' ''s1'' ''And tomorrow?'')) = 0 \<and>
   length (filter (\<lambda>kv. fst kv = ''s1'')
     (tasks (run \<lparr>tasks = [(''s1'', \<lparr>task_id = ''s1'', status = Pending, history = []\<rparr>)]\<rparr>
        [Upsert (example_params ''t3'' ''s2'' ''Hello''),
         SendTask clock_agent (example_request ''r4'' ''s1'' ''What time is it?'')]))) = 1"
proof -
  have u: "upsert_task init_task_manager (example_params ''t1'' ''s1'' ''What time is it?'') =
     (\<lparr>tasks = [(''s1'', \<lparr>task_id = ''s1'', status = Pending, history = []\<rparr>)]\<rparr>, 0)"
    by (simp add: upsert_task_def init_task_manager_def example_params_def Let_def)
  have s: "sessionId (example_params ''t2'' ''s1'' ''And tomorrow?'') =
           sessionId (example_params ''t1'' ''s1'' ''What time is it?'')"
    by (simp add: example_params_def)
  have ok: "store_ok init_task_manager" by (rule store_ok_init)
  have sid: "sessionId (example_params ''t1'' ''s1'' ''What time is it?'') = ''s1''"
    by (simp add: example_params_def)
  show ?thesis
    using upsert_task_idempotent [OF u s,
        of "[Upsert (example_params ''t3'' ''s2'' ''Hello''),
             SendTask clock_agent (example_request ''r4'' ''s1'' ''What time is it?'')]"]
      u ok sid
    by simp
qed

lemma append_reply_history:
  "r < length (tasks tm) \<Longrightarrow>
     history (task_at (append_reply tm r m) r) = history (task_at tm r) @ [m] \<and>
     status (task_at (append_reply tm r m) r) = Completed \<and>
     length (tasks (append_reply tm r m)) = length (tasks tm)"
  by (simp add: append_reply_def task_at_def)

lemma append_reply_other:
  "j \<noteq> r \<Longrightarrow> tasks (append_reply tm r m) ! j = tasks tm ! j"
  by (simp add: append_reply_def)

lemma upsert_task_history:
  "r < length (tasks tm) \<Longrightarrow> tasks (fst (upsert_task tm p)) ! r = tasks tm ! r"
  by (simp add: upsert_task_def Let_def nth_append split: option.splits)

lemma upsert_task_length:
  "length (tasks tm) \<le> length (tasks (fst (upsert_task tm p)))"
  by (simp add: upsert_task_def Let_def split: option.splits)

lemma on_send_task_grows:
  assumes "r < length (tasks tm)"
  shows "r < length (tasks (fst (on_send_task agent tm request))) \<and>
         (\<exists>suffix. history (task_at (fst (on_send_task agent tm request)) r) =
                    history (task_at tm r) @ suffix)"
proof -
  obtain tm1 r1 where u: "upsert_task tm (params request) = (tm1, r1)"
    by (cases "upsert_task tm (params request)")
  have b1: "r1 < length (tasks tm1)" using u by (rule upsert_task_bound)
  have l1: "r < length (tasks tm1)"
    using assms upsert_task_length [of tm "params request"] u by simp
  have same: "task_at tm1 r = task_at tm r"
    using upsert_task_history [OF assms, of "params request"] u by (simp add: task_at_def)
  show ?thesis
  proof (cases "fst (on_send_task agent tm request) = tm1")
    case True
    with l1 same show ?thesis by simp
  next
    case False
    then obtain m where m: "fst (on_send_task agent tm request) = append_reply tm1 r1 m"
      using u by (auto simp: on_send_task_def split: sum.splits)
    show ?thesis
    proof (cases "r = r1")
      case True
      with m b1 same append_reply_history [OF b1, of m] show ?thesis by simp
    next
      case False
      then have "task_at (append_reply tm1 r1 m) r = task_at tm1 r"
        by (simp add: task_at_def append_reply_other)
      with m l1 same b1 append_reply_history [OF b1, of m] show ?thesis by simp
    qed
  qed
qed

lemma step_grows:
  assumes "r < length (tasks tm)"
  shows "r < length (tasks (step tm c)) \<and>
         (\<exists>suffix. history (task_at (step tm c) r) = history (task_at tm r) @ suffix)"
proof (cases c)
  case (Upsert p)
  have "task_at (fst (upsert_task tm p)) r = task_at tm r"
    using upsert_task_history [OF assms, of p] by (simp add: task_at_def)
  with Upsert assms upsert_task_length [of tm p] show ?thesis by simp
next
  case (SendTask agent request)
  with on_send_task_grows [OF assms, of agent request] show ?thesis by simp
qed

lemma run_grows:
  "r < length (tasks tm) \<Longrightarrow>
     r < length (tasks (run tm calls)) \<and>
     (\<exists>suffix. history (task_at (run tm calls) r) = history (task_at tm r) @ suffix)"
proof (induction calls arbitrary: tm)
  case Nil
  then show ?case by (simp add: run_def)
next
  case (Cons c calls)
  from step_grows [OF Cons.prems, of c]
  obtain s1 where l: "r < length (tasks (step tm c))"
    and h: "history (task_at (step tm c) r) = history (task_at tm r) @ s1" by blast
  from Cons.IH [OF l]
  obtain s2 where l2: "r < length (tasks (run (step tm c) calls))"
    and h2: "history (task_at (run (step tm c) calls) r) = history (task_at (step tm c) r) @ s2"
    by blast
  have "run tm (c # calls) = run (step tm c) calls" by (simp add: run_def)
  with l2 h h2 show ?case by simp
qed

text \<open>
  C4. In every store the task manager can reach from the empty one, a successful
  \<open>on_send_task\<close> appends exactly one agent message to the history of the session's Task:
  the history after is the history before with the reply at the end, so its length grows by
  one and nothing earlier is shortened or rewritten, also by any later sequence of calls.
  The status is either left as it was or moves along an edge of the state machine (the
  pending to completed step of a non-streaming flow); every other Task is untouched.
\<close>

theorem on_send_task_appends:
  assumes reach: "tm = run init_task_manager calls"
    and sent: "on_send_task agent tm request = (tm', Inr resp)"
  shows "\<exists>tm1 reply.
           upsert_task tm (params request) = (tm1, result resp) \<and>
           result resp < length (tasks tm1) \<and>
           role reply = Agent \<and>
           history (task_at tm' (result resp)) = history (task_at tm1 (result resp)) @ [reply] \<and>
           length (history (task_at tm' (result resp))) =
             Suc (length (history (task_at tm1 (result resp)))) \<and>
           (status (task_at tm' (result resp)) = status (task_at tm1 (result resp)) \<or>
            edge (status (task_at tm1 (result resp))) (status (task_at tm' (result resp)))) \<and>
           length (tasks tm') = length (tasks tm1) \<and>
           (\<forall>j. j \<noteq> result resp \<longrightarrow> tasks tm' ! j = tasks tm1 ! j) \<and>
           (\<forall>later. \<exists>suffix. history (task_at (run tm' later) (result resp)) =
                       history (task_at tm' (result resp)) @ suffix)"
proof -
  obtain tm1 r where u: "upsert_task tm (params request) = (tm1, r)"
    by (cases "upsert_task tm (params request)")
  have b: "r < length (tasks tm1)" using u by (rule upsert_task_bound)
  from sent u obtain answer where
    tm': "tm' = append_reply tm1 r \<lparr>role = Agent, parts = [TextPart answer]\<rparr>"
    and resp: "result resp = r"
    by (auto simp: on_send_task_def split: sum.splits)
  let ?reply = "\<lparr>role = Agent, parts = [TextPart answer]\<rparr>"
  have "store_ok tm" using reach store_ok_init store_ok_run by simp
  then have ok1: "store_ok tm1" using store_ok_upsert [of tm "params request"] u by simp
  then have "case tasks tm1 ! r of (sid, t) \<Rightarrow>
               task_id t = sid \<and> (status t = Pending \<or> status t = Completed)"
    using b by (simp add: store_ok_def list_all_length)
  then have old: "status (task_at tm1 r) = Pending \<or> status (task_at tm1 r) = Completed"
    by (cases "tasks tm1 ! r") (simp add: task_at_def)
  have h: "history (task_at tm' r) = history (task_at tm1 r) @ [?reply]"
    and st: "status (task_at tm' r) = Completed"
    and len: "length (tasks tm') = length (tasks tm1)"
    using append_reply_history [OF b, of ?reply] tm' by simp_all
  have e: "status (task_at tm' r) = status (task_at tm1 r) \<or>
           edge (status (task_at tm1 r)) (status (task_at tm' r))"
    using old st by auto
  have other: "\<forall>j. j \<noteq> r \<longrightarrow> tasks tm' ! j = tasks tm1 ! j"
    using tm' by (simp add: append_reply_other)
  have b': "r < length (tasks tm')" using b len by simp
  have later: "\<forall>later. \<exists>suffix. history (task_at (run tm' later) r) =
                       history (task_at tm' r) @ suffix"
    using run_grows [OF b'] by blast
  have "upsert_task tm (params request) = (tm1, result resp) \<and>
           result resp < length (tasks tm1) \<and>
           role ?reply = Agent \<and>
           history (task_at tm' (result resp)) = history (task_at tm1 (result resp)) @ [?reply] \<and>
           length (history (task_at tm' (result resp))) =
             Suc (length (history (task_at tm1 (result resp)))) \<and>
           (status (task_at tm' (result resp)) = status (task_at tm1 (result resp)) \<or>
            edge (status (task_at tm1 (result resp))) (status (task_at tm' (result resp)))) \<and>
           length (tasks tm') = length (tasks tm1) \<and>
           (\<forall>j. j \<noteq> result resp \<longrightarrow> tasks tm' ! j = tasks tm1 ! j) \<and>
           (\<forall>later. \<exists>suffix. history (task_at (run tm' later) (result resp)) =
                       history (task_at tm' (result resp)) @ suffix)"
    using u b h e len other later resp by simp
  then show ?thesis by blast
qed

text \<open>
  C6 (as amended). For a request whose message has no parts, \<open>on_send_task\<close> raises
  \<open>IndexError\<close> after \<open>upsert_task\<close> has run. A Task that already exists for the session
  is left exactly as it was (no reply appended, no status change); for an unseen session
  id one pending Task with an empty history has been created by then.
\<close>

theorem on_send_task_no_parts:
  assumes "parts (message (params request)) = []"
  shows "on_send_task agent tm request =
           (fst (upsert_task tm (params request)), Inl IndexError) \<and>
         (slot_of (sessionId (params request)) (tasks tm) \<noteq> None \<longrightarrow>
            fst (on_send_task agent tm request) = tm) \<and>
         (slot_of (sessionId (params request)) (tasks tm) = None \<longrightarrow>
            tasks (fst (on_send_task agent tm request)) =
              tasks tm @ [(sessionId (params request),
                \<lparr>task_id = sessionId (params request), status = Pending, history = []\<rparr>)])"
  using assms
  by (auto simp: on_send_task_def get_user_query_def upsert_task_def Let_def
           split: prod.splits option.splits)

text \<open>The orchestrator's handler fails at the same place, after its own upsert.\<close>

lemma orchestrator_handler_no_parts:
  "parts (message (params request)) = [] \<Longrightarrow>
     orchestrator_on_send_task upsert agent tm request =
       (fst (upsert tm (params request)), Inl IndexError)"
  by (simp add: orchestrator_on_send_task_def get_user_query_def split: prod.splits)

text \<open>The claim as stated fails on the empty store: the error is raised, and a Task for
  the session has been created.\<close>

theorem format_error_counterexample:
  "on_send_task clock_agent init_task_manager (empty_request ''r1'' ''s1'') =
     (\<lparr>tasks = [(''s1'', \<lparr>task_id = ''s1'', status = Pending, history = []\<rparr>)]\<rparr>, Inl IndexError) \<and>
   fst (on_send_task clock_agent init_task_manager (empty_request ''r1'' ''s1'')) \<noteq>
     init_task_manager"
  by (simp add: on_send_task_def get_user_query_def upsert_task_def Let_def
        init_task_manager_def empty_request_def)

theorem on_send_task_no_parts_witness:
  "parts (message (params (empty_request ''r1'' ''s1''))) = [] \<and>
   on_send_task clock_agent init_task_manager (empty_request ''r1'' ''s1'') =
     (\<lparr>tasks = [(''s1'', \<lparr>task_id = ''s1'', status = Pending, history = []\<rparr>)]\<rparr>, Inl IndexError) \<and>
   on_send_task clock_agent
       \<lparr>tasks = [(''s1'', \<lparr>task_id = ''s1'', status = Completed, history = [user_message ''hi'']\<rparr>)]\<rparr>
       (empty_request ''r2'' ''s1'') =
     (\<lparr>tasks = [(''s1'', \<lparr>task_id = ''s1'', status = Completed, history = [user_message ''hi'']\<rparr>)]\<rparr>,
      Inl IndexError)"
proof -
  have p: "parts (message (params (empty_request ''r1'' ''s1''))) = []"
    and p2: "parts (message (params (empty_request ''r2'' ''s1''))) = []"
    by (simp_all add: empty_request_def)
  show ?thesis
    using p on_send_task_no_parts [OF p, of clock_agent init_task_manager]
      on_send_task_no_parts [OF p2, of clock_agent
        "\<lparr>tasks = [(''s1'', \<lparr>task_id = ''s1'', status = Completed, history = [user_message ''hi'']\<rparr>)]\<rparr>"]
    by (simp add: upsert_task_def Let_def init_task_manager_def empty_request_def)
qed

theorem on_send_task_appends_witness:
  "on_send_task clock_agent (run init_task_manager [Upsert (example_params ''t0'' ''s0'' ''Hello'')])
      (example_request ''r1'' ''s1'' ''What time is it?'') =
     (\<lparr>tasks = [(''s0'', \<lparr>task_id = ''s0'', status = Pending, history = []\<rparr>),
                (''s1'', \<lparr>task_id = ''s1'', status = Completed,
                          history = [\<lparr>role = Agent, parts = [TextPart ''12:00'']\<rparr>]\<rparr>)]\<rparr>,
      Inr \<lparr>response_id = ''r1'', result = 1\<rparr>) \<and>
   length (history (task_at
     \<lparr>tasks = [(''s0'', \<lparr>task_id = ''s0'', status = Pending, history = []\<rparr>),
                (''s1'', \<lparr>task_id = ''s1'', status = Completed,
                          history = [\<lparr>role = Agent, parts = [TextPart ''12:00'']\<rparr>]\<rparr>)]\<rparr> 1)) =
   Suc (length (history (task_at
     (fst (upsert_task (run init_task_manager [Upsert (example_params ''t0'' ''s0'' ''Hello'')])
        (params (example_request ''r1'' ''s1'' ''What time is it?'')))) 1)))"
proof -
  let ?tm = "run init_task_manager [Upsert (example_params ''t0'' ''s0'' ''Hello'')]"
  let ?tm' = "\<lparr>tasks = [(''s0'', \<lparr>task_id = ''s0'', status = Pending, history = []\<rparr>),
                (''s1'', \<lparr>task_id = ''s1'', status = Completed,
                          history = [\<lparr>role = Agent, parts = [TextPart ''12:00'']\<rparr>]\<rparr>)]\<rparr>"
  have s: "on_send_task clock_agent ?tm (example_request ''r1'' ''s1'' ''What time is it?'') =
     (?tm', Inr \<lparr>response_id = ''r1'', result = 1\<rparr>)"
    by (simp add: on_send_task_def get_user_query_def upsert_task_def Let_def run_def
          init_task_manager_def example_request_def example_params_def user_message_def
          clock_agent_def append_reply_def task_at_def)
  from on_send_task_appends [OF refl s]
  obtain tm1 reply where
    "upsert_task ?tm (params (example_request ''r1'' ''s1'' ''What time is it?'')) = (tm1, 1)"
    "length (history (task_at ?tm' 1)) = Suc (length (history (task_at tm1 1)))"
    by auto
  with s show ?thesis by simp
qed

section \<open>Server\<close>

lemma error_response_envelope:
  "error_response id_nullable e = Inr resp \<Longrightarrow>
     resp = \<lparr>status_code = 400,
          content = JObject [(''jsonrpc'', JString ''2.0''), (''id'', JNull), (''result'', JNull),
            (''error'', JObject [(''code'', JInt (- 32603)), (''message'', JString (str_exn e)),
                                 (''data'', JNull)])]\<rparr>"
  by (auto simp: error_response_def JSONRPCResponse_def InternalError_def model_dump_def
        dump_error_def split: if_splits)

lemma error_response_nullable:
  "error_response True e =
     Inr \<lparr>status_code = 400,
          content = JObject [(''jsonrpc'', JString ''2.0''), (''id'', JNull), (''result'', JNull),
            (''error'', JObject [(''code'', JInt (- 32603)), (''message'', JString (str_exn e)),
                                 (''data'', JNull)])]\<rparr>"
  by (simp add: error_response_def JSONRPCResponse_def InternalError_def model_dump_def
        dump_error_def)

lemma create_response_id:
  "status_code (create_response dump_task tm response) = 200 \<and>
   json_get (content (create_response dump_task tm response)) ''id'' =
     Some (JString (response_id response)) \<and>
   json_get (content (create_response dump_task tm response)) ''error'' = None"
  by (simp add: create_response_def model_dump_exclude_none_def)

lemma on_send_task_response_id:
  "on_send_task agent tm request = (tm', Inr response) \<Longrightarrow>
     response_id response = request_id request"
  by (auto simp: on_send_task_def split: prod.splits sum.splits)

text \<open>
  C5 (as amended). A successful response carries the request's id unchanged, and reading
  \<open>id\<close> back from the encoded envelope recovers it. Every error envelope produced on a
  failure (the body does not validate, the request is of an unsupported type, or the task
  manager raises) has status 400 and carries a null \<open>id\<close>, not the request's, together
  with the generic code -32603 and \<open>str(e)\<close> as its message.
\<close>

theorem handle_request_ids:
  "(validate_python body = Inr (SendTaskRequest request) \<and>
    on_send_task agent tm request = (tm', Inr response) \<longrightarrow>
      (\<exists>c. handle_request validate_python agent id_nullable dump_task tm body =
              (tm', Inr \<lparr>status_code = 200, content = c\<rparr>) \<and>
           json_get c ''id'' = Some (JString (request_id request)) \<and>
           json_get c ''error'' = None)) \<and>
   (validate_python body = Inl e \<or>
    validate_python body = Inr (SendTaskRequest request) \<and>
      snd (on_send_task agent tm request) = Inl e \<or>
    validate_python body = Inr (UnsupportedRequest ty) \<and>
      e = ValueError (''Unsupported request type: '' @ ty) \<longrightarrow>
      (\<forall>resp. snd (handle_request validate_python agent id_nullable dump_task tm body) = Inr resp
         \<longrightarrow> resp =
           \<lparr>status_code = 400,
            content = JObject [(''jsonrpc'', JString ''2.0''), (''id'', JNull),
              (''result'', JNull),
              (''error'', JObject [(''code'', JInt (- 32603)),
                 (''message'', JString (str_exn e)), (''data'', JNull)])]\<rparr> \<and>
           json_get (content resp) ''id'' = Some JNull))"
proof (rule conjI; intro impI allI)
  assume a: "validate_python body = Inr (SendTaskRequest request) \<and>
    on_send_task agent tm request = (tm', Inr response)"
  then have rid: "response_id response = request_id request"
    using on_send_task_response_id by blast
  have h: "handle_request validate_python agent id_nullable dump_task tm body =
             (tm', Inr (create_response dump_task tm' response))"
    using a by (simp add: handle_request_def)
  have "create_response dump_task tm' response =
          \<lparr>status_code = 200, content = content (create_response dump_task tm' response)\<rparr>"
    by (simp add: create_response_def)
  with h create_response_id [of dump_task tm' response] rid
  show "\<exists>c. handle_request validate_python agent id_nullable dump_task tm body =
              (tm', Inr \<lparr>status_code = 200, content = c\<rparr>) \<and>
           json_get c ''id'' = Some (JString (request_id request)) \<and>
           json_get c ''error'' = None"
    by metis
next
  fix resp
  assume "validate_python body = Inl e \<or>
    validate_python body = Inr (SendTaskRequest request) \<and>
      snd (on_send_task agent tm request) = Inl e \<or>
    validate_python body = Inr (UnsupportedRequest ty) \<and>
      e = ValueError (''Unsupported request type: '' @ ty)"
  then have "snd (handle_request validate_python agent id_nullable dump_task tm body) =
               error_response id_nullable e"
    by (auto simp: handle_request_def split: prod.splits sum.splits)
  moreover assume "snd (handle_request validate_python agent id_nullable dump_task tm body) =
                     Inr resp"
  ultimately have r: "resp =
           \<lparr>status_code = 400,
            content = JObject [(''jsonrpc'', JString ''2.0''), (''id'', JNull),
              (''result'', JNull),
              (''error'', JObject [(''code'', JInt (- 32603)),
                 (''message'', JString (str_exn e)), (''data'', JNull)])]\<rparr>"
    using error_response_envelope [of id_nullable e resp] by simp
  then show "resp =
           \<lparr>status_code = 400,
            content = JObject [(''jsonrpc'', JString ''2.0''), (''id'', JNull),
              (''result'', JNull),
              (''error'', JObject [(''code'', JInt (- 32603)),
                 (''message'', JString (str_exn e)), (''data'', JNull)])]\<rparr> \<and>
           json_get (content resp) ''id'' = Some JNull"
    by simp
qed

text \<open>The claim as stated fails when the task manager raises on a request with id
  \<open>r1\<close>: the error envelope has a null id.\<close>

theorem error_envelope_id_counterexample:
  "snd (handle_request (\<lambda>b. Inr (SendTaskRequest (empty_request ''r1'' ''s1''))) clock_agent
          True example_dump_task init_task_manager ''body'') =
     Inr \<lparr>status_code = 400,
          content = JObject [(''jsonrpc'', JString ''2.0''), (''id'', JNull), (''result'', JNull),
            (''error'', JObject [(''code'', JInt (- 32603)),
               (''message'', JString ''list index out of range''), (''data'', JNull)])]\<rparr> \<and>
   json_get (JObject [(''jsonrpc'', JString ''2.0''), (''id'', JNull), (''result'', JNull),
            (''error'', JObject [(''code'', JInt (- 32603)),
               (''message'', JString ''list index out of range''), (''data'', JNull)])]) ''id''
     \<noteq> Some (JString ''r1'')"
  by (simp add: handle_request_def on_send_task_def get_user_query_def upsert_task_def Let_def
        init_task_manager_def empty_request_def error_response_nullable)

theorem handle_request_ids_witness:
  "(\<exists>c. handle_request
           (\<lambda>b. Inr (SendTaskRequest (example_request ''r1'' ''s1'' ''What time is it?'')))
           clock_agent True example_dump_task init_task_manager ''body'' =
          (\<lparr>tasks = [(''s1'', \<lparr>task_id = ''s1'', status = Completed,
                          history = [\<lparr>role = Agent, parts = [TextPart ''12:00'']\<rparr>]\<rparr>)]\<rparr>,
           Inr \<lparr>status_code = 200, content = c\<rparr>) \<and>
        json_get c ''id'' = Some (JString ''r1'') \<and> json_get c ''error'' = None) \<and>
   snd (handle_request (\<lambda>b. Inl (OtherError ''bad body'')) clock_agent True example_dump_task
          init_task_manager ''body'') =
     Inr \<lparr>status_code = 400,
          content = JObject [(''jsonrpc'', JString ''2.0''), (''id'', JNull), (''result'', JNull),
            (''error'', JObject [(''code'', JInt (- 32603)),
               (''message'', JString ''bad body''), (''data'', JNull)])]\<rparr>"
proof -
  let ?req = "example_request ''r1'' ''s1'' ''What time is it?''"
  let ?tm' = "\<lparr>tasks = [(''s1'', \<lparr>task_id = ''s1'', status = Completed,
                          history = [\<lparr>role = Agent, parts = [TextPart ''12:00'']\<rparr>]\<rparr>)]\<rparr>"
  let ?bad = "\<lambda>b::string. (Inl (OtherError ''bad body'') :: exn + a2a_request)"
  have s: "on_send_task clock_agent init_task_manager ?req =
             (?tm', Inr \<lparr>response_id = ''r1'', result = 0\<rparr>)"
    by (simp add: on_send_task_def get_user_query_def upsert_task_def Let_def
          init_task_manager_def example_request_def example_params_def user_message_def
          clock_agent_def append_reply_def task_at_def)
  have rid: "request_id ?req = ''r1''" by (simp add: example_request_def)
  from handle_request_ids [of "\<lambda>b. Inr (SendTaskRequest ?req)" "''body''" ?req clock_agent
        init_task_manager ?tm' "\<lparr>response_id = ''r1'', result = 0\<rparr>" True example_dump_task
        "OtherError ''x''" "''x''"] s rid
  have ok: "\<exists>c. handle_request (\<lambda>b. Inr (SendTaskRequest ?req))
           clock_agent True example_dump_task init_task_manager ''body'' =
          (?tm', Inr \<lparr>status_code = 200, content = c\<rparr>) \<and>
        json_get c ''id'' = Some (JString ''r1'') \<and> json_get c ''error'' = None"
    by simp
  obtain resp where produced:
    "snd (handle_request ?bad clock_agent True example_dump_task init_task_manager ''body'') =
       Inr resp"
    by (simp add: handle_request_def error_response_nullable)
  from handle_request_ids [of ?bad "''body''" ?req clock_agent
        init_task_manager ?tm' "\<lparr>response_id = ''r1'', result = 0\<rparr>" True example_dump_task
        "OtherError ''bad body''" "''x''"] produced
  have "resp = \<lparr>status_code = 400,
          content = JObject [(''jsonrpc'', JString ''2.0''), (''id'', JNull), (''result'', JNull),
            (''error'', JObject [(''code'', JInt (- 32603)),
               (''message'', JString ''bad body''), (''data'', JNull)])]\<rparr>"
    by simp
  with produced ok show ?thesis by blast
qed

section \<open>Discovery\<close>

lemma fetch_agent_card_fails:
  "source_fails env u \<Longrightarrow> isl (fetch_agent_card env (well_known u))"
  by (auto simp: source_fails_def unreachable_def status_rejected_def malformed_body_def
        malformed_descriptor_def fetch_agent_card_def split: sum.splits option.splits)

lemma fetch_agent_card_succeeds:
  "\<not> source_fails env u \<Longrightarrow> fetch_agent_card env (well_known u) = Inr (served_card env u)"
  by (auto simp: source_fails_def unreachable_def status_rejected_def malformed_body_def
        malformed_descriptor_def fetch_agent_card_def served_card_def
        split: sum.splits option.splits)

lemma list_agent_card_loop_strings:
  "list_agent_card_loop env (map JString urls) acc =
     Inr (acc @ map (served_card env) (filter (\<lambda>u. \<not> source_fails env u) urls))"
proof (induction urls arbitrary: acc)
  case Nil
  show ?case by simp
next
  case (Cons u urls)
  show ?case
  proof (cases "source_fails env u")
    case True
    from fetch_agent_card_fails [OF True]
    obtain e where "fetch_agent_card env (well_known u) = Inl e"
      by (cases "fetch_agent_card env (well_known u)") simp_all
    with True show ?thesis using Cons.IH [of acc] by simp
  next
    case False
    from fetch_agent_card_succeeds [OF False] False
    show ?thesis using Cons.IH [of "acc @ [served_card env u]"] by simp
  qed
qed

lemma load_registry_total: "\<exists>base_urls. load_registry f = Inr base_urls"
proof (cases f)
  case NoFile then show ?thesis by (simp add: load_registry_def)
next
  case (NotJson m) then show ?thesis by (simp add: load_registry_def)
next
  case (JsonFile j) then show ?thesis by (cases j) (simp_all add: load_registry_def)
qed

lemma load_registry_not_list:
  "(\<forall>entries. j \<noteq> JArray entries) \<Longrightarrow> load_registry (JsonFile j) = Inr []"
  by (cases j) (simp_all add: load_registry_def)

lemma filter_count: "length (filter (\<lambda>x. \<not> P x) xs) = length xs - length (filter P xs)"
  by (induction xs) (auto simp: Suc_diff_le)

text \<open>
  C7 (as amended). For a source list of N URL strings of which K fail (the peer is
  unreachable, the status check rejects the response, the body is not JSON, or the JSON is
  not a descriptor), \<open>list_agent_card\<close> returns, without raising, exactly the N - K
  descriptors served by the sources that do not fail, in source order. A missing,
  unparseable or non-list registry file gives an empty source list and an empty descriptor
  list, not an error.
\<close>

theorem discovery_skips_failures:
  "list_agent_card env (map JString urls) =
     Inr (map (served_card env) (filter (\<lambda>u. \<not> source_fails env u) urls)) \<and>
   length (map (served_card env) (filter (\<lambda>u. \<not> source_fails env u) urls)) =
     length urls - length (filter (source_fails env) urls) \<and>
   discover env (JsonFile (JArray (map JString urls))) = list_agent_card env (map JString urls) \<and>
   load_registry NoFile = Inr [] \<and> discover env NoFile = Inr [] \<and>
   load_registry (NotJson m) = Inr [] \<and> discover env (NotJson m) = Inr [] \<and>
   ((\<forall>entries. j \<noteq> JArray entries) \<longrightarrow>
      load_registry (JsonFile j) = Inr [] \<and> discover env (JsonFile j) = Inr [])"
proof -
  have a: "list_agent_card env (map JString urls) =
     Inr (map (served_card env) (filter (\<lambda>u. \<not> source_fails env u) urls))"
    by (simp add: list_agent_card_def list_agent_card_loop_strings)
  have b: "length (map (served_card env) (filter (\<lambda>u. \<not> source_fails env u) urls)) =
     length urls - length (filter (source_fails env) urls)"
    by (simp add: filter_count)
  have c: "discover env (JsonFile (JArray (map JString urls))) =
             list_agent_card env (map JString urls)"
    by (simp add: discover_def load_registry_def)
  have d: "load_registry NoFile = Inr []" "load_registry (NotJson m) = Inr []"
    by (simp_all add: load_registry_def)
  have e: "discover env NoFile = Inr []" "discover env (NotJson m) = Inr []"
    by (simp_all add: discover_def d list_agent_card_def)
  have f: "(\<forall>entries. j \<noteq> JArray entries) \<longrightarrow>
      load_registry (JsonFile j) = Inr [] \<and> discover env (JsonFile j) = Inr []"
    by (simp add: discover_def load_registry_not_list list_agent_card_def)
  from a b c d e f show ?thesis by simp
qed

text \<open>The claim as stated fails on a source list with an entry that is not a string: the
  URL is computed before the \<open>try\<close>, so the exception leaves \<open>list_agent_card\<close> although
  the first source answered.\<close>

theorem non_string_source_counterexample:
  "discover example_http (JsonFile (JArray [JString ''http://a/'', JInt 1])) =
     Inl (AttributeError ''object has no attribute rstrip'') \<and>
   \<not> source_fails example_http ''http://a/''"
  by (simp add: discover_def load_registry_def list_agent_card_def fetch_agent_card_def
        well_known_def rstrip_slash_def example_http_def source_fails_def unreachable_def
        status_rejected_def malformed_body_def malformed_descriptor_def)

theorem discovery_skips_failures_witness:
  "list_agent_card example_http
     [JString ''http://a/'', JString ''http://b'', JString ''http://c'', JString ''http://d'',
      JString ''http://e'', JString ''http://f''] =
     Inr [example_card ''TimeAgent'' ''http://agent'',
          example_card ''Translator'' ''http://agent''] \<and>
   unreachable example_http ''http://b'' \<and>
   status_rejected example_http ''http://c'' \<and>
   malformed_body example_http ''http://d'' \<and>
   malformed_descriptor example_http ''http://e'' \<and>
   discover example_http (JsonFile (JObject [])) = Inr []"
proof -
  have w: "well_known ''http://a/'' = ''http://a/.well-known/agent.json''"
    "well_known ''http://b'' = ''http://b/.well-known/agent.json''"
    "well_known ''http://c'' = ''http://c/.well-known/agent.json''"
    "well_known ''http://d'' = ''http://d/.well-known/agent.json''"
    "well_known ''http://e'' = ''http://e/.well-known/agent.json''"
    "well_known ''http://f'' = ''http://f/.well-known/agent.json''"
    by (simp_all add: well_known_def rstrip_slash_def)
  have g: "client_get example_http ''http://a/.well-known/agent.json'' = Inr (200, ''TimeAgent'')"
    "client_get example_http ''http://b/.well-known/agent.json'' = Inl (OtherError ''timed out'')"
    "client_get example_http ''http://c/.well-known/agent.json'' = Inr (500, ''Broken'')"
    "client_get example_http ''http://d/.well-known/agent.json'' = Inr (200, ''<html>'')"
    "client_get example_http ''http://e/.well-known/agent.json'' = Inr (200, ''{}'')"
    "client_get example_http ''http://f/.well-known/agent.json'' = Inr (200, ''Translator'')"
    by (simp_all add: example_http_def)
  have st: "raise_for_status example_http (200, b) = None"
    "raise_for_status example_http (500, b) = Some (OtherError ''HTTPStatusError'')" for b
    by (simp_all add: example_http_def)
  have js: "response_json example_http (200, ''TimeAgent'') = Inr ''TimeAgent''"
    "response_json example_http (200, ''Translator'') = Inr ''Translator''"
    "response_json example_http (200, ''<html>'') = Inl (JSONDecodeError ''Expecting value'')"
    "response_json example_http (200, ''{}'') = Inr ''{}''"
    by (simp_all add: example_http_def)
  have ac: "AgentCard example_http ''TimeAgent'' = Inr (example_card ''TimeAgent'' ''http://agent'')"
    "AgentCard example_http ''Translator'' = Inr (example_card ''Translator'' ''http://agent'')"
    "AgentCard example_http ''{}'' = Inl (ValidationError ''name: Field required'')"
    by (simp_all add: example_http_def)
  have fails: "\<not> source_fails example_http ''http://a/''" "source_fails example_http ''http://b''"
    "source_fails example_http ''http://c''" "source_fails example_http ''http://d''"
    "source_fails example_http ''http://e''" "\<not> source_fails example_http ''http://f''"
    and kinds: "unreachable example_http ''http://b''" "status_rejected example_http ''http://c''"
    "malformed_body example_http ''http://d''" "malformed_descriptor example_http ''http://e''"
    by (simp_all add: source_fails_def unreachable_def status_rejected_def malformed_body_def
          malformed_descriptor_def w g st js ac)
  have cards: "served_card example_http ''http://a/'' = example_card ''TimeAgent'' ''http://agent''"
    "served_card example_http ''http://f'' = example_card ''Translator'' ''http://agent''"
    by (simp_all add: served_card_def w g js ac)
  have nl: "\<forall>entries. JObject [] \<noteq> JArray entries" by simp
  from discovery_skips_failures [of example_http
      "[''http://a/'', ''http://b'', ''http://c'', ''http://d'', ''http://e'', ''http://f'']"
      "''x''" "JObject []"] nl fails cards kinds
  show ?thesis by simp
qed

section \<open>Client and connector\<close>

lemma send_request_posts_once:
  "posted (snd (send_request self request w)) = posted w @ [(base_url self, request)]"
  by (simp add: send_request_def Let_def split: http_reply.splits)

lemma send_task_unfold:
  "send_task self msg session_id w =
     (case remote w (posted w) (base_url (client self)) (wire_request msg session_id w) of
        RaisesHTTPError m \<Rightarrow> Inl (A2AClientHttpError (''HTTP error occurred: '' @ m))
      | RaisesJSONDecodeError m \<Rightarrow>
          Inl (A2AClientJSONError (''Error parsing JSON response: '' @ m))
      | RaisesOther e \<Rightarrow> Inl e
      | JsonBody NoResult \<Rightarrow> Inl (KeyError ''result'')
      | JsonBody (BadResult m) \<Rightarrow> Inl (ValidationError m)
      | JsonBody (TaskResult t) \<Rightarrow> Inr t,
      w\<lparr>uuid_count := Suc (Suc (uuid_count w)),
        posted := posted w @ [(base_url (client self), wire_request msg session_id w)]\<rparr>)"
  by (simp add: send_task_def client_send_task_def send_request_def uuid4_def wire_request_def
        Let_def split: http_reply.splits result_field.splits)

text \<open>
  C9. A connector call makes exactly one POST. If the transport fails the caller gets an
  \<open>A2AClientHttpError\<close>; if the reply is not JSON the caller gets an \<open>A2AClientJSONError\<close>;
  the two are different exceptions. A Task is returned only when the reply carried one, so
  neither failure is swallowed, and no second attempt is made.
\<close>

theorem connector_failures_surface:
  "(remote w (posted w) (base_url (client self)) (wire_request msg session_id w)
      = RaisesHTTPError m \<longrightarrow>
      fst (send_task self msg session_id w) =
        Inl (A2AClientHttpError (''HTTP error occurred: '' @ m))) \<and>
   (remote w (posted w) (base_url (client self)) (wire_request msg session_id w)
      = RaisesJSONDecodeError m \<longrightarrow>
      fst (send_task self msg session_id w) =
        Inl (A2AClientJSONError (''Error parsing JSON response: '' @ m))) \<and>
   A2AClientHttpError a \<noteq> A2AClientJSONError b \<and>
   (\<forall>t. fst (send_task self msg session_id w) = Inr t \<longrightarrow>
      remote w (posted w) (base_url (client self)) (wire_request msg session_id w)
        = JsonBody (TaskResult t)) \<and>
   posted (snd (send_task self msg session_id w)) =
     posted w @ [(base_url (client self), wire_request msg session_id w)]"
  by (simp add: send_task_unfold split: http_reply.splits result_field.splits)

theorem connector_failures_surface_witness:
  "fst (send_task time_connector ''What time is it?'' ''s1''
         (example_world (\<lambda>log u r. RaisesHTTPError ''timed out''))) =
     Inl (A2AClientHttpError ''HTTP error occurred: timed out'') \<and>
   fst (send_task time_connector ''What time is it?'' ''s1''
         (example_world (\<lambda>log u r. RaisesJSONDecodeError ''Expecting value''))) =
     Inl (A2AClientJSONError ''Error parsing JSON response: Expecting value'') \<and>
   length (posted (snd (send_task time_connector ''What time is it?'' ''s1''
         (example_world (\<lambda>log u r. RaisesHTTPError ''timed out''))))) = 1"
proof -
  let ?w1 = "example_world (\<lambda>log u r. RaisesHTTPError ''timed out'')"
  let ?w2 = "example_world (\<lambda>log u r. RaisesJSONDecodeError ''Expecting value'')"
  have r1: "remote ?w1 (posted ?w1) (base_url (client time_connector))
              (wire_request ''What time is it?'' ''s1'' ?w1) = RaisesHTTPError ''timed out''"
    by (simp add: example_world_def)
  have r2: "remote ?w2 (posted ?w2) (base_url (client time_connector))
              (wire_request ''What time is it?'' ''s1'' ?w2) = RaisesJSONDecodeError ''Expecting value''"
    by (simp add: example_world_def)
  have p: "posted ?w1 = []" by (simp add: example_world_def)
  note t1 = connector_failures_surface [of ?w1 time_connector "''What time is it?''" "''s1''"
      "''timed out''" "''x''" "''y''"]
  note t2 = connector_failures_surface [of ?w2 time_connector "''What time is it?''" "''s1''"
      "''Expecting value''" "''x''" "''y''"]
  from t1 r1 have a: "fst (send_task time_connector ''What time is it?'' ''s1'' ?w1) =
             Inl (A2AClientHttpError (''HTTP error occurred: '' @ ''timed out''))"
    by blast
  from t1 have "posted (snd (send_task time_connector ''What time is it?'' ''s1'' ?w1)) =
     posted ?w1 @ [(base_url (client time_connector), wire_request ''What time is it?'' ''s1'' ?w1)]"
    by blast
  then have c: "length (posted (snd (send_task time_connector ''What time is it?'' ''s1'' ?w1))) = 1"
    by (simp add: p)
  from t2 r2 have b: "fst (send_task time_connector ''What time is it?'' ''s1'' ?w2) =
             Inl (A2AClientJSONError (''Error parsing JSON response: '' @ ''Expecting value''))"
    by blast
  from a b c show ?thesis by simp
qed

section \<open>Replies of delegated calls\<close>

lemma delegate_reply_empty: "history t = [] \<Longrightarrow> delegate_reply t = Inr ''''"
  by (simp add: delegate_reply_def)

lemma delegate_reply_last:
  "length (history t) \<ge> 2 \<Longrightarrow> parts (last (history t)) = p # ps \<Longrightarrow>
     delegate_reply t = Inr (part_text p)"
  by (auto simp: delegate_reply_def)

lemma call_agent_reply_empty: "history t = [] \<Longrightarrow> call_agent_reply t = ''''"
  by (simp add: call_agent_reply_def)

lemma call_agent_reply_last:
  "history t \<noteq> [] \<Longrightarrow> parts (last (history t)) = p # ps \<Longrightarrow>
     call_agent_reply t = part_text p"
  by (simp add: call_agent_reply_def)

text \<open>
  C2. At a Task whose history holds exactly one entry, the agent's reply \<open>12:00\<close>,
  \<open>_delegate_task\<close> returns the empty string, while \<open>call_agent\<close> returns \<open>12:00\<close> for
  the same Task.
\<close>

theorem delegate_task_single_entry:
  "fst (delegate_task (Map.empty(''TellTimeAgent'' \<mapsto> time_connector)) ''TellTimeAgent''
         ''What time is it?'' Map.empty (example_world single_reply_remote)) = Inr '''' \<and>
   fst (call_agent [time_card] Map.empty ''TellTimeAgent'' ''What time is it?''
         (example_world single_reply_remote)) = Inr ''12:00''"
proof -
  have a: "fst (delegate_task (Map.empty(''TellTimeAgent'' \<mapsto> time_connector)) ''TellTimeAgent''
         ''What time is it?'' Map.empty (example_world single_reply_remote)) = Inr ''''"
    by (simp add: delegate_task_def resolve_connector_def ensure_session_id_def uuid4_def
          send_task_unfold example_world_def single_reply_remote_def delegate_reply_def)
  have f: "find_agent [time_card] ''TellTimeAgent'' = Inr time_card"
    by (simp add: find_agent_def matches_exact_def time_card_def example_card_def)
  have c: "cached_connector Map.empty time_card =
             Inr (Map.empty(''TellTimeAgent'' \<mapsto> time_connector), time_connector)"
    by (simp add: cached_connector_def AgentConnector_def A2AClient_def time_card_def
          example_card_def time_connector_def)
  have b: "fst (call_agent [time_card] Map.empty ''TellTimeAgent'' ''What time is it?''
         (example_world single_reply_remote)) = Inr ''12:00''"
    by (simp add: call_agent_def f c send_task_unfold example_world_def
          single_reply_remote_def call_agent_reply_def)
  from a b show ?thesis by simp
qed

section \<open>Capability resolution\<close>

lemma AgentConnector_name: "AgentConnector n u = Inr c \<Longrightarrow> connector_name c = n"
  by (auto simp: AgentConnector_def split: sum.splits)

lemma register_connectors_keys:
  "register_connectors cards cs = Inr cs' \<Longrightarrow>
     (\<forall>n. (cs' n \<noteq> None) = (cs n \<noteq> None \<or> n \<in> name ` set cards))"
proof (induction cards arbitrary: cs)
  case Nil
  then show ?case by simp
next
  case (Cons ac cards)
  from Cons.prems obtain c where
    c: "AgentConnector (name ac) (url ac) = Inr c"
    and r: "register_connectors cards (cs(name ac \<mapsto> c)) = Inr cs'"
    by (auto split: sum.splits)
  from Cons.IH [OF r] show ?case by auto
qed

lemma register_connectors_names:
  "register_connectors cards cs = Inr cs' \<Longrightarrow>
     (\<forall>n c. cs n = Some c \<longrightarrow> connector_name c = n) \<Longrightarrow>
     (\<forall>n c. cs' n = Some c \<longrightarrow> connector_name c = n)"
proof (induction cards arbitrary: cs)
  case Nil
  then show ?case by simp
next
  case (Cons ac cards)
  from Cons.prems(1) obtain c where
    c: "AgentConnector (name ac) (url ac) = Inr c"
    and r: "register_connectors cards (cs(name ac \<mapsto> c)) = Inr cs'"
    by (auto split: sum.splits)
  have "\<forall>n c'. (cs(name ac \<mapsto> c)) n = Some c' \<longrightarrow> connector_name c' = n"
    using Cons.prems(2) AgentConnector_name [OF c] by auto
  from Cons.IH [OF r this] show ?case .
qed

lemma find_first:
  "i < length xs \<Longrightarrow> P (xs ! i) \<Longrightarrow> (\<forall>j<i. \<not> P (xs ! j)) \<Longrightarrow> find P xs = Some (xs ! i)"
  by (auto simp: find_Some_iff)

text \<open>
  C1 (as amended). \<open>GreetingAgent.call_agent\<close> resolves a name in two tiers over the
  cards in registry order: the first card whose name or id equals the name up to case; if
  no card matches so, the first card whose lower-cased name contains the lower-cased name;
  if none does either, a ValueError. \<open>OrchestratorAgent._delegate_task\<close> has one tier
  only: the name resolves exactly when it is, case-sensitively, the name of a registered
  card, and otherwise a ValueError is raised. Both are functions of the registered cards and
  the name alone.
\<close>

theorem resolution_tiers:
  "(\<forall>i<length cards.
      matches_exact agent_name (cards ! i) \<and> (\<forall>j<i. \<not> matches_exact agent_name (cards ! j)) \<longrightarrow>
      find_agent cards agent_name = Inr (cards ! i)) \<and>
   ((\<forall>c\<in>set cards. \<not> matches_exact agent_name c) \<longrightarrow>
      (\<forall>i<length cards.
         matches_substring agent_name (cards ! i) \<and>
         (\<forall>j<i. \<not> matches_substring agent_name (cards ! j)) \<longrightarrow>
         find_agent cards agent_name = Inr (cards ! i))) \<and>
   ((\<forall>c\<in>set cards. \<not> matches_exact agent_name c \<and> \<not> matches_substring agent_name c) \<longrightarrow>
      find_agent cards agent_name =
        Inl (ValueError (''Agent '' @ [CHR 0x27] @ agent_name @ [CHR 0x27] @ '' not found.''))) \<and>
   (orchestrator_init cards = Inr connectors \<longrightarrow>
      (case resolve_connector connectors agent_name of
         Inl e \<Rightarrow> e = ValueError (''Unknown agent: '' @ agent_name) \<and>
                  agent_name \<notin> name ` set cards
       | Inr c \<Rightarrow> connector_name c = agent_name \<and> agent_name \<in> name ` set cards))"
proof (intro conjI allI impI)
  fix i
  assume "i < length cards"
    and "matches_exact agent_name (cards ! i) \<and> (\<forall>j<i. \<not> matches_exact agent_name (cards ! j))"
  then have "find (matches_exact agent_name) cards = Some (cards ! i)"
    by (simp add: find_first)
  then show "find_agent cards agent_name = Inr (cards ! i)"
    by (simp add: find_agent_def)
next
  fix i
  assume none: "\<forall>c\<in>set cards. \<not> matches_exact agent_name c"
    and "i < length cards"
    and "matches_substring agent_name (cards ! i) \<and>
         (\<forall>j<i. \<not> matches_substring agent_name (cards ! j))"
  then have "find (matches_substring agent_name) cards = Some (cards ! i)"
    by (simp add: find_first)
  moreover have "find (matches_exact agent_name) cards = None"
    using none by (simp add: find_None_iff)
  ultimately show "find_agent cards agent_name = Inr (cards ! i)"
    by (simp add: find_agent_def)
next
  assume "\<forall>c\<in>set cards. \<not> matches_exact agent_name c \<and> \<not> matches_substring agent_name c"
  then have "find (matches_exact agent_name) cards = None"
    and "find (matches_substring agent_name) cards = None"
    by (simp_all add: find_None_iff)
  then show "find_agent cards agent_name =
        Inl (ValueError (''Agent '' @ [CHR 0x27] @ agent_name @ [CHR 0x27] @ '' not found.''))"
    by (simp add: find_agent_def)
next
  assume init: "orchestrator_init cards = Inr connectors"
  then have r: "register_connectors cards Map.empty = Inr connectors"
    by (simp add: orchestrator_init_def)
  have keys: "(connectors agent_name \<noteq> None) = (agent_name \<in> name ` set cards)"
    using register_connectors_keys [OF r] by simp
  have names: "\<forall>n c. connectors n = Some c \<longrightarrow> connector_name c = n"
    using register_connectors_names [OF r] by simp
  show "case resolve_connector connectors agent_name of
         Inl e \<Rightarrow> e = ValueError (''Unknown agent: '' @ agent_name) \<and>
                  agent_name \<notin> name ` set cards
       | Inr c \<Rightarrow> connector_name c = agent_name \<and> agent_name \<in> name ` set cards"
  proof (cases "connectors agent_name")
    case None
    with keys show ?thesis by (simp add: resolve_connector_def)
  next
    case (Some c)
    with keys names show ?thesis by (simp add: resolve_connector_def)
  qed
qed

text \<open>The claim as stated fails in the orchestrator: with TellTimeAgent and Translator
  registered, neither the substring \<open>time\<close> nor the lower-case spelling resolves.\<close>

theorem orchestrator_resolution_counterexample:
  "matches_substring ''time'' time_card \<and>
   matches_exact ''telltimeagent'' time_card \<and>
   (case orchestrator_init [time_card, translator_card] of
      Inl e \<Rightarrow> False
    | Inr connectors \<Rightarrow>
        resolve_connector connectors ''time'' = Inl (ValueError ''Unknown agent: time'') \<and>
        resolve_connector connectors ''telltimeagent'' =
          Inl (ValueError ''Unknown agent: telltimeagent''))"
  by (simp add: matches_substring_def matches_exact_def time_card_def translator_card_def
        example_card_def py_lower_def char_lower_def orchestrator_init_def AgentConnector_def
        A2AClient_def resolve_connector_def)


theorem resolution_tiers_witness:
  "find_agent [time_card, translator_card] ''TRANSLATOR'' = Inr translator_card \<and>
   find_agent [time_card, translator_card] ''a'' = Inr time_card \<and>
   find_agent [time_card, translator_card] ''Weather'' =
     Inl (ValueError (''Agent '' @ [CHR 0x27] @ ''Weather'' @ [CHR 0x27] @ '' not found.'')) \<and>
   (case orchestrator_init [time_card, translator_card] of
      Inl e \<Rightarrow> False
    | Inr connectors \<Rightarrow>
        (case resolve_connector connectors ''Translator'' of
           Inl e \<Rightarrow> False
         | Inr c \<Rightarrow> connector_name c = ''Translator''))"
proof -
  let ?cards = "[time_card, translator_card]"
  have e0: "\<not> matches_exact ''TRANSLATOR'' time_card"
    and e1: "matches_exact ''TRANSLATOR'' translator_card"
    and a0: "\<not> matches_exact ''a'' time_card" and a1: "\<not> matches_exact ''a'' translator_card"
    and s0: "matches_substring ''a'' time_card"
    and w0: "\<not> matches_exact ''Weather'' time_card"
    and w1: "\<not> matches_exact ''Weather'' translator_card"
    and w2: "\<not> matches_substring ''Weather'' time_card"
    and w3: "\<not> matches_substring ''Weather'' translator_card"
    by (simp_all add: matches_substring_def matches_exact_def time_card_def translator_card_def
          example_card_def py_lower_def char_lower_def)
  obtain cs where init: "orchestrator_init ?cards = Inr cs"
    by (simp add: orchestrator_init_def AgentConnector_def A2AClient_def time_card_def
          translator_card_def example_card_def)
  have n: "''Translator'' \<in> name ` set ?cards"
    by (simp add: translator_card_def example_card_def)
  note t1 = resolution_tiers [of ?cards "''TRANSLATOR''" cs]
  note t2 = resolution_tiers [of ?cards "''a''" cs]
  note t3 = resolution_tiers [of ?cards "''Weather''" cs]
  note t4 = resolution_tiers [of ?cards "''Translator''" cs]
  from t1 have "\<forall>i<length ?cards.
      matches_exact ''TRANSLATOR'' (?cards ! i) \<and>
      (\<forall>j<i. \<not> matches_exact ''TRANSLATOR'' (?cards ! j)) \<longrightarrow>
      find_agent ?cards ''TRANSLATOR'' = Inr (?cards ! i)" by (rule conjunct1)
  then have "1 < length ?cards \<longrightarrow>
      matches_exact ''TRANSLATOR'' (?cards ! 1) \<and>
      (\<forall>j<1. \<not> matches_exact ''TRANSLATOR'' (?cards ! j)) \<longrightarrow>
      find_agent ?cards ''TRANSLATOR'' = Inr (?cards ! 1)" by (rule spec)
  with e0 e1 have r1: "find_agent ?cards ''TRANSLATOR'' = Inr translator_card" by simp
  from t2 have "(\<forall>c\<in>set ?cards. \<not> matches_exact ''a'' c) \<longrightarrow>
      (\<forall>i<length ?cards.
         matches_substring ''a'' (?cards ! i) \<and>
         (\<forall>j<i. \<not> matches_substring ''a'' (?cards ! j)) \<longrightarrow>
         find_agent ?cards ''a'' = Inr (?cards ! i))" by blast
  with a0 a1 have "\<forall>i<length ?cards.
         matches_substring ''a'' (?cards ! i) \<and>
         (\<forall>j<i. \<not> matches_substring ''a'' (?cards ! j)) \<longrightarrow>
         find_agent ?cards ''a'' = Inr (?cards ! i)" by simp
  then have "0 < length ?cards \<longrightarrow>
         matches_substring ''a'' (?cards ! 0) \<and>
         (\<forall>j<0. \<not> matches_substring ''a'' (?cards ! j)) \<longrightarrow>
         find_agent ?cards ''a'' = Inr (?cards ! 0)" by (rule spec)
  with s0 have r2: "find_agent ?cards ''a'' = Inr time_card" by simp
  from t3 have "(\<forall>c\<in>set ?cards. \<not> matches_exact ''Weather'' c \<and> \<not> matches_substring ''Weather'' c) \<longrightarrow>
      find_agent ?cards ''Weather'' =
        Inl (ValueError (''Agent '' @ [CHR 0x27] @ ''Weather'' @ [CHR 0x27] @ '' not found.''))"
    by blast
  with w0 w1 w2 w3 have r3: "find_agent ?cards ''Weather'' =
        Inl (ValueError (''Agent '' @ [CHR 0x27] @ ''Weather'' @ [CHR 0x27] @ '' not found.''))"
    by simp
  from t4 init have "case resolve_connector cs ''Translator'' of
         Inl e \<Rightarrow> e = ValueError (''Unknown agent: '' @ ''Translator'') \<and>
                  ''Translator'' \<notin> name ` set ?cards
       | Inr c \<Rightarrow> connector_name c = ''Translator'' \<and> ''Translator'' \<in> name ` set ?cards"
    by blast
  with n have r4: "case resolve_connector cs ''Translator'' of
           Inl e \<Rightarrow> False
         | Inr c \<Rightarrow> connector_name c = ''Translator''"
    by (cases "resolve_connector cs ''Translator''") simp_all
  from r1 r2 r3 r4 init show ?thesis by simp
qed


section \<open>Session continuity\<close>

lemma delegate_task_unknown:
  "connectors a = None \<Longrightarrow>
     delegate_task connectors a m state w =
       (Inl (ValueError (''Unknown agent: '' @ a)), state, w)"
  by (simp add: delegate_task_def resolve_connector_def)

lemma delegate_task_known:
  assumes "connectors a = Some c"
    and "delegate_task connectors a m state w = (res, state', w')"
  shows "outbound_session_ids w' =
           outbound_session_ids w @
             [case state ''session_id'' of
                None \<Rightarrow> uuid_str (uuid_supply w (uuid_count w)) | Some s \<Rightarrow> s] \<and>
         state' ''session_id'' =
           Some (case state ''session_id'' of
                   None \<Rightarrow> uuid_str (uuid_supply w (uuid_count w)) | Some s \<Rightarrow> s)"
proof (cases "state ''session_id''")
  case None
  let ?sid = "uuid_str (uuid_supply w (uuid_count w))"
  let ?w1 = "w\<lparr>uuid_count := Suc (uuid_count w)\<rparr>"
  have e: "ensure_session_id state w = (?sid, state(''session_id'' \<mapsto> ?sid), ?w1)"
    using None by (simp add: ensure_session_id_def uuid4_def)
  have w': "w' = snd (send_task c m ?sid ?w1)" and st: "state' = state(''session_id'' \<mapsto> ?sid)"
    using assms e by (auto simp: delegate_task_def resolve_connector_def split: prod.splits sum.splits)
  have "posted w' = posted w @ [(base_url (client c), wire_request m ?sid ?w1)]"
    unfolding w' by (simp add: send_task_unfold)
  then have "outbound_session_ids w' = outbound_session_ids w @ [?sid]"
    by (simp add: outbound_session_ids_def wire_request_def)
  with st None show ?thesis by simp
next
  case (Some sid)
  have e: "ensure_session_id state w = (sid, state, w)"
    using Some by (simp add: ensure_session_id_def)
  have w': "w' = snd (send_task c m sid w)" and st: "state' = state"
    using assms e by (auto simp: delegate_task_def resolve_connector_def split: prod.splits sum.splits)
  have "posted w' = posted w @ [(base_url (client c), wire_request m sid w)]"
    unfolding w' by (simp add: send_task_unfold)
  then have "outbound_session_ids w' = outbound_session_ids w @ [sid]"
    by (simp add: outbound_session_ids_def wire_request_def)
  with st Some show ?thesis by simp
qed

lemma dispatch_known:
  assumes "connectors a = Some c"
    and "dispatch connectors sessions session_id a m w = (res, sessions', w')"
  shows "outbound_session_ids w' =
           outbound_session_ids w @ [downstream_session_id sessions session_id w] \<and>
         stored_session_id sessions' session_id =
           Some (downstream_session_id sessions session_id w)"
proof -
  let ?state = "case sessions session_id of None \<Rightarrow> Map.empty | Some st \<Rightarrow> st"
  obtain state' where d: "delegate_task connectors a m ?state w = (res, state', w')"
    and s': "sessions' = sessions(session_id \<mapsto> state')"
    using assms(2) by (auto simp: dispatch_def Let_def split: prod.splits)
  have same: "?state ''session_id'' = stored_session_id sessions session_id"
    by (simp add: stored_session_id_def split: option.splits)
  from delegate_task_known [OF assms(1) d] same s' show ?thesis
    by (simp add: downstream_session_id_def stored_session_id_def)
qed

lemma dispatch_unknown:
  assumes "connectors a = None"
    and "dispatch connectors sessions session_id a m w = (res, sessions', w')"
  shows "w' = w \<and> stored_session_id sessions' session_id = stored_session_id sessions session_id"
  using assms
  by (auto simp: dispatch_def delegate_task_unknown stored_session_id_def split: option.splits)

text \<open>
  C8 (as amended). Within one conversation (one session of the session service) every
  delegation to a registered agent sends the same session id downstream: the id stored in
  the session's state, or, when none is stored yet, a UUID drawn at the first delegation
  and stored from then on. The id is not the end user's session id, which
  \<open>_delegate_task\<close> never sees; a delegation to an unknown agent posts nothing.
\<close>

theorem dispatch_session_stable:
  "outbound_session_ids (snd (dispatch_all connectors sessions session_id calls w)) =
     outbound_session_ids w @
       replicate (length (filter (\<lambda>c. connectors (fst c) \<noteq> None) calls))
         (downstream_session_id sessions session_id w)"
proof (induction calls arbitrary: sessions w)
  case Nil
  show ?case by simp
next
  case (Cons call calls)
  obtain a m where call: "call = (a, m)" by (cases call)
  obtain res sessions' w' where d: "dispatch connectors sessions session_id a m w = (res, sessions', w')"
    by (cases "dispatch connectors sessions session_id a m w")
  have step: "dispatch_all connectors sessions session_id (call # calls) w =
                dispatch_all connectors sessions' session_id calls w'"
    using call d by simp
  show ?case
  proof (cases "connectors a")
    case None
    from dispatch_unknown [OF None d]
    have "downstream_session_id sessions' session_id w' = downstream_session_id sessions session_id w"
      and "w' = w"
      by (simp_all add: downstream_session_id_def)
    with Cons.IH [of sessions' w'] step call None show ?thesis by simp
  next
    case (Some c)
    from dispatch_known [OF Some d]
    have o: "outbound_session_ids w' =
           outbound_session_ids w @ [downstream_session_id sessions session_id w]"
      and "stored_session_id sessions' session_id =
           Some (downstream_session_id sessions session_id w)"
      by simp_all
    then have "downstream_session_id sessions' session_id w' =
                 downstream_session_id sessions session_id w"
      by (simp add: downstream_session_id_def)
    with Cons.IH [of sessions' w'] step call Some o show ?thesis
      by (simp add: replicate_append_same)
  qed
qed

text \<open>The claim as stated fails: two delegations of the conversation \<open>s1\<close> send the same
  id downstream, but it is a generated UUID, not \<open>s1\<close>.\<close>

theorem session_id_counterexample:
  "outbound_session_ids
     (snd (dispatch_all (Map.empty(''TellTimeAgent'' \<mapsto> time_connector)) Map.empty ''s1''
        [(''TellTimeAgent'', ''What time is it?''), (''TellTimeAgent'', ''What time is it?'')]
        (example_world single_reply_remote))) =
     [''0a000000-0000-4000-8000-000000000000'', ''0a000000-0000-4000-8000-000000000000''] \<and>
   ''0a000000-0000-4000-8000-000000000000'' \<noteq> ''s1''"
  by (simp add: dispatch_def delegate_task_def resolve_connector_def ensure_session_id_def
        uuid4_def send_task_unfold example_world_def single_reply_remote_def
        outbound_session_ids_def wire_request_def uuid_str_def Let_def)

theorem dispatch_session_stable_witness:
  "outbound_session_ids
     (snd (dispatch_all (Map.empty(''TellTimeAgent'' \<mapsto> time_connector)) Map.empty ''s1''
        [(''TellTimeAgent'', ''What time is it?''), (''Nobody'', ''Hello''),
         (''TellTimeAgent'', ''And tomorrow?'')]
        (example_world single_reply_remote))) =
     [''0a000000-0000-4000-8000-000000000000'', ''0a000000-0000-4000-8000-000000000000'']"
  using dispatch_session_stable [of "Map.empty(''TellTimeAgent'' \<mapsto> time_connector)" Map.empty
      "''s1''" "[(''TellTimeAgent'', ''What time is it?''), (''Nobody'', ''Hello''),
         (''TellTimeAgent'', ''And tomorrow?'')]" "example_world single_reply_remote"]
  by (simp add: downstream_session_id_def stored_session_id_def outbound_session_ids_def
        example_world_def uuid_str_def)

section \<open>Tool gateway\<close>

lemma mutate_all_other:
  "a \<noteq> r \<Longrightarrow> mutate_all heap r fs ! a = heap ! a \<and>
     length (mutate_all heap r fs) = length heap"
  unfolding mutate_all_def
  by (induction fs arbitrary: heap) (simp_all add: mutate_def)

text \<open>
  C10. \<open>get_tools\<close> returns a new list object holding the elements of the gateway's
  internal list. Whatever sequence of in-place changes the caller applies to the returned
  list, the internal list is unchanged, and a later \<open>get_tools\<close> returns a list with the
  same elements as before.
\<close>

theorem get_tools_returns_copy:
  assumes "tools self < length heap"
    and "get_tools self heap = (r, heap1)"
  shows "r \<noteq> tools self \<and>
         heap1 ! r = heap ! tools self \<and>
         heap1 ! tools self = heap ! tools self \<and>
         mutate_all heap1 r fs ! tools self = heap ! tools self \<and>
         (case get_tools self (mutate_all heap1 r fs) of
            (r2, heap2) \<Rightarrow> heap2 ! r2 = heap ! tools self \<and> r2 \<noteq> r)"
proof -
  have r: "r = length heap" and h1: "heap1 = heap @ [heap ! tools self]"
    using assms(2) by (simp_all add: get_tools_def)
  have ne: "tools self \<noteq> r" using assms(1) r by simp
  have a: "heap1 ! r = heap ! tools self" by (simp add: r h1)
  have b: "heap1 ! tools self = heap ! tools self"
    using assms(1) by (simp add: h1 nth_append)
  from mutate_all_other [OF ne, of heap1 fs]
  have c: "mutate_all heap1 r fs ! tools self = heap1 ! tools self"
    and l: "length (mutate_all heap1 r fs) = length heap1" by simp_all
  have d: "case get_tools self (mutate_all heap1 r fs) of
            (r2, heap2) \<Rightarrow> heap2 ! r2 = heap ! tools self \<and> r2 \<noteq> r"
  proof -
    let ?m = "mutate_all heap1 r fs"
    have "(?m @ [?m ! tools self]) ! length ?m = ?m ! tools self" by simp
    moreover have "length ?m \<noteq> r" using l by (simp add: r h1)
    ultimately show ?thesis using c b by (simp add: get_tools_def)
  qed
  from ne a b c d show ?thesis by auto
qed

theorem get_tools_returns_copy_witness:
  "get_tools \<lparr>tools = 0\<rparr> [[example_tool ''read_file'', example_tool ''list_files'']] =
     (1, [[example_tool ''read_file'', example_tool ''list_files''],
          [example_tool ''read_file'', example_tool ''list_files'']]) \<and>
   mutate_all [[example_tool ''read_file'', example_tool ''list_files''],
               [example_tool ''read_file'', example_tool ''list_files'']] 1
     [\<lambda>xs. xs @ [example_tool ''evil''], rev, remove1 (example_tool ''read_file'')] =
     [[example_tool ''read_file'', example_tool ''list_files''],
      [example_tool ''evil'', example_tool ''list_files'']] \<and>
   fst (get_tools \<lparr>tools = 0\<rparr>
          (mutate_all [[example_tool ''read_file'', example_tool ''list_files''],
               [example_tool ''read_file'', example_tool ''list_files'']] 1
             [\<lambda>xs. xs @ [example_tool ''evil''], rev, remove1 (example_tool ''read_file'')])) = 2 \<and>
   snd (get_tools \<lparr>tools = 0\<rparr>
          (mutate_all [[example_tool ''read_file'', example_tool ''list_files''],
               [example_tool ''read_file'', example_tool ''list_files'']] 1
             [\<lambda>xs. xs @ [example_tool ''evil''], rev, remove1 (example_tool ''read_file'')])) ! 2 =
     [example_tool ''read_file'', example_tool ''list_files'']"
proof -
  let ?h = "[[example_tool ''read_file'', example_tool ''list_files'']]"
  let ?h1 = "[[example_tool ''read_file'', example_tool ''list_files''],
          [example_tool ''read_file'', example_tool ''list_files'']]"
  let ?fs = "[\<lambda>xs. xs @ [example_tool ''evil''], rev, remove1 (example_tool ''read_file'')]"
  have b: "tools \<lparr>tools = 0\<rparr> < length ?h" by simp
  have g: "get_tools \<lparr>tools = 0\<rparr> ?h = (1, ?h1)" by (simp add: get_tools_def)
  define hm where "hm = mutate_all ?h1 1 ?fs"
  have m: "hm =
     [[example_tool ''read_file'', example_tool ''list_files''],
      [example_tool ''evil'', example_tool ''list_files'']]"
    unfolding hm_def by (simp add: mutate_all_def mutate_def example_tool_def)
  from get_tools_returns_copy [OF b g, of ?fs]
  have c: "case get_tools \<lparr>tools = 0\<rparr> hm of
            (r2, heap2) \<Rightarrow> heap2 ! r2 = ?h ! tools \<lparr>tools = 0\<rparr> \<and> r2 \<noteq> 1"
    unfolding hm_def by simp
  have f: "fst (get_tools \<lparr>tools = 0\<rparr> hm) = 2"
    unfolding m by (simp add: get_tools_def)
  from c f have s: "snd (get_tools \<lparr>tools = 0\<rparr> hm) ! 2 =
      [example_tool ''read_file'', example_tool ''list_files'']"
    by (cases "get_tools \<lparr>tools = 0\<rparr> hm") simp
  from g m f s show ?thesis unfolding hm_def by simp
qed

end
